theory Spec2Isabelle
  imports Complex_Main "HOL-Library.Sublist"
begin

section \<open>Python values\<close>

text \<open>
  A Python \<open>str\<close> is a sequence of Unicode code points, and \<open>len\<close> and slicing count
  code points; a character is therefore modelled by its code point. Durations and
  offsets are Python numbers (\<open>int\<close> or \<open>float\<close>); they are modelled as exact rationals,
  so the rounding of binary floating point is outside the model.
\<close>

type_synonym pystr = "nat list"

definition py :: "string \<Rightarrow> pystr" where
  "py s = map of_char s"

text \<open>\<open>bool(s)\<close> of an optional string: \<open>None\<close> and \<open>''\<close> are false.\<close>

definition truthy :: "pystr option \<Rightarrow> bool" where
  "truthy v = (case v of None \<Rightarrow> False | Some s \<Rightarrow> s \<noteq> [])"

text \<open>\<open>s.replace(old, new)\<close>: every non-overlapping occurrence, scanning from the left.\<close>

function replace_str :: "pystr \<Rightarrow> pystr \<Rightarrow> pystr \<Rightarrow> pystr" where
  "replace_str old new [] = (if old = [] then new else [])"
| "replace_str old new (c # cs) =
     (if old = [] then new @ c # replace_str old new cs
      else if take (length old) (c # cs) = old
        then new @ replace_str old new (drop (length old) (c # cs))
      else c # replace_str old new cs)"
  by pat_completeness auto
termination
  by (relation "measure (\<lambda>(old, new, s). length s)") auto

text \<open>\<open>s[:n]\<close>: a negative bound counts from the end.\<close>

definition py_slice_to :: "pystr \<Rightarrow> int \<Rightarrow> pystr" where
  "py_slice_to s n = (if 0 \<le> n then take (nat n) s else take (length s - nat (- n)) s)"

text \<open>\<open>s.strip(chars)\<close> removes leading and trailing characters that occur in \<open>chars\<close>.\<close>

definition py_strip_chars :: "pystr \<Rightarrow> pystr \<Rightarrow> pystr" where
  "py_strip_chars chars s =
     rev (dropWhile (\<lambda>c. c \<in> set chars) (rev (dropWhile (\<lambda>c. c \<in> set chars) s)))"

text \<open>The code points Python treats as whitespace (\<open>str.isspace\<close>, used by \<open>strip()\<close>).\<close>

definition py_isspace :: "nat \<Rightarrow> bool" where
  "py_isspace c =
     ((9 \<le> c \<and> c \<le> 13) \<or> (28 \<le> c \<and> c \<le> 32) \<or> c = 133 \<or> c = 160 \<or> c = 5760 \<or>
      (8192 \<le> c \<and> c \<le> 8202) \<or> c = 8232 \<or> c = 8233 \<or> c = 8239 \<or> c = 8287 \<or> c = 12288)"

definition py_strip :: "pystr \<Rightarrow> pystr" where
  "py_strip s = rev (dropWhile py_isspace (rev (dropWhile py_isspace s)))"

text \<open>Decimal digits of a natural number, and \<open>str(n)\<close> of an integer.\<close>

fun dec_digits :: "nat \<Rightarrow> pystr" where
  "dec_digits n = (if n < 10 then [48 + n] else dec_digits (n div 10) @ [48 + n mod 10])"

declare dec_digits.simps [simp del]

definition str_int :: "int \<Rightarrow> pystr" where
  "str_int n = (if n < 0 then 45 # dec_digits (nat (- n)) else dec_digits (nat n))"


text \<open>\<open>x // m\<close> and \<open>x % m\<close> (floor division and its remainder), and \<open>int(x)\<close>, which
  truncates towards zero.\<close>

definition py_floordiv :: "rat \<Rightarrow> rat \<Rightarrow> rat" where
  "py_floordiv x m = of_int \<lfloor>x / m\<rfloor>"


definition py_int :: "rat \<Rightarrow> int" where
  "py_int x = (if 0 \<le> x then \<lfloor>x\<rfloor> else \<lceil>x\<rceil>)"

section \<open>process_youtube_video.py: file names and timestamps\<close>

text \<open>The characters \<open><>:"/\|?*\<close>, in the order of the source's string.\<close>

definition invalid_chars :: pystr where
  "invalid_chars = [60, 62, 58, 34, 47, 92, 124, 63, 42]"

text \<open>
  \<open>sanitize_filename(title, max_length=50)\<close>. \<open>str.isalnum\<close> is the interpreter's Unicode
  table; it is a parameter of the model.
\<close>

definition sanitize_filename :: "(nat \<Rightarrow> bool) \<Rightarrow> pystr \<Rightarrow> int \<Rightarrow> pystr" where
  "sanitize_filename isalnum title max_length =
     (let t1 = foldl (\<lambda>t char. replace_str [char] [] t) title invalid_chars;
          t2 = replace_str [32] [95] t1;
          t3 = filter (\<lambda>c. isalnum c \<or> c \<in> set [95, 45]) t2
      in py_strip_chars [95] (py_slice_to t3 max_length))"




section \<open>Segmentation\<close>

text \<open>
  \<open>video_info\<close> is a dictionary read with \<open>.get\<close>, so each key may be absent. The result
  of the \<open>ffprobe\<close> call is an input of the model: \<open>Some d\<close> when the tool printed the
  number \<open>d\<close>, \<open>None\<close> when running it or parsing its output raised.
\<close>

record video_info =
  info_title :: "pystr option"
  info_description :: "pystr option"
  info_duration :: "rat option"

record segment =
  seg_start :: rat
  seg_end :: rat
  seg_title :: pystr
  seg_description :: pystr

text \<open>The duration \<open>create_segments\<close> works with (its lines up to the segment loop).\<close>

definition probed_duration :: "video_info \<Rightarrow> rat option \<Rightarrow> rat" where
  "probed_duration video_info probe =
     (let duration = (case info_duration video_info of Some d \<Rightarrow> d | None \<Rightarrow> 0)
      in if duration = 0 then (case probe of Some d \<Rightarrow> d | None \<Rightarrow> 60) else duration)"

definition create_segments :: "pystr \<Rightarrow> rat option \<Rightarrow> video_info \<Rightarrow> segment list" where
  "create_segments video_id probe video_info =
     (let duration = probed_duration video_info probe;
          segment_duration = 60;
          num_segments = min (py_int (py_floordiv duration segment_duration)) 10;
          title = (case info_title video_info of Some t \<Rightarrow> t | None \<Rightarrow> video_id)
      in map (\<lambda>i.
            let start = of_nat i * segment_duration;
                end' = min (start + segment_duration) duration
            in \<lparr>seg_start = start, seg_end = end',
                seg_title = title @ py '' - Part '' @ str_int (int i + 1),
                seg_description = py ''Part '' @ str_int (int i + 1) @ py '' of ''
                                  @ str_int num_segments\<rparr>)
          [0 ..< nat num_segments])"

text \<open>download_and_upload_to_r2.py: the transcript and the analysis document.\<close>

record transcript_entry =
  entry_start :: rat
  entry_text :: pystr

record analysis_segment =
  as_start :: rat
  as_end :: rat
  as_duration :: rat
  as_title :: pystr
  as_description :: pystr
  as_reason :: pystr

record analysis =
  an_video_id :: pystr
  an_title :: pystr
  an_description :: pystr
  an_duration :: rat
  an_transcript :: "transcript_entry list"
  an_segments :: "analysis_segment list"

text \<open>The inner loop over the transcript: \<open>segment_text += entry['text'] + " "\<close>.\<close>

definition segment_text_of :: "transcript_entry list \<Rightarrow> rat \<Rightarrow> rat \<Rightarrow> pystr" where
  "segment_text_of transcript start end' =
     foldl (\<lambda>segment_text entry.
              if start \<le> entry_start entry \<and> entry_start entry < end'
              then segment_text @ entry_text entry @ py '' '' else segment_text)
           [] transcript"

text \<open>
  \<open>create_analysis_json\<close>: \<open>probe\<close> is the \<open>ffprobe\<close> result as above (a failure gives
  duration 0 here), \<open>info\<close> the contents of the info file when it exists, \<open>transcript\<close>
  the retrieved transcript or \<open>None\<close>.
\<close>

definition create_analysis_json ::
  "pystr \<Rightarrow> rat option \<Rightarrow> video_info option \<Rightarrow> transcript_entry list option \<Rightarrow> analysis" where
  "create_analysis_json video_id probe info transcript =
     (let duration = (case probe of Some d \<Rightarrow> d | None \<Rightarrow> 0);
          title = (case info of None \<Rightarrow> video_id
                   | Some i \<Rightarrow> (case info_title i of Some t \<Rightarrow> t | None \<Rightarrow> video_id));
          description = (case info of None \<Rightarrow> []
                   | Some i \<Rightarrow> (case info_description i of Some d \<Rightarrow> d | None \<Rightarrow> []));
          entries = (case transcript of Some t \<Rightarrow> t | None \<Rightarrow> []);
          segments =
            (if entries \<noteq> [] \<and> 0 < duration then
               (let segment_duration = 60;
                    num_segments = py_int (py_floordiv duration segment_duration)
                in map (\<lambda>i.
                      let start = of_nat i * segment_duration;
                          end' = min (start + segment_duration) duration;
                          segment_text = segment_text_of entries start end'
                      in \<lparr>as_start = start, as_end = end', as_duration = end' - start,
                          as_title = title @ py '' - Part '' @ str_int (int i + 1),
                          as_description =
                            (if segment_text \<noteq> [] then take 200 (py_strip segment_text)
                             else py ''Segment '' @ str_int (int i + 1)),
                          as_reason = py ''Auto-generated segment''\<rparr>)
                    [0 ..< nat (min num_segments 10)])
             else [])
      in \<lparr>an_video_id = video_id, an_title = title, an_description = description,
          an_duration = duration, an_transcript = entries, an_segments = segments\<rparr>)"

text \<open>
  Notions used to state the properties of the two segmenters, not part of the program:
  the number of windows the loops run over, the test that a transcript entry starts inside
  a window, and the concatenation of texts with single spaces between them.
\<close>

definition seg_count :: "rat \<Rightarrow> nat" where
  "seg_count D = nat (min \<lfloor>D / 60\<rfloor> 10)"

fun space_join :: "pystr list \<Rightarrow> pystr" where
  "space_join [] = []"
| "space_join [x] = x"
| "space_join (x # y # zs) = x @ [32] @ space_join (y # zs)"

definition in_window :: "rat \<Rightarrow> rat \<Rightarrow> transcript_entry \<Rightarrow> bool" where
  "in_window start end' entry = (start \<le> entry_start entry \<and> entry_start entry < end')"

section \<open>The database session\<close>

text \<open>
  A row of the \<open>videos\<close> table (class \<open>Video\<close>, identical in both scripts). The numeric
  primary key is assigned by the database and never read by the scripts; it is left out.
  \<open>video_id\<close> is unique, so a table is a map from \<open>video_id\<close> to the row. Timestamps are
  clock readings.
\<close>

record video =
  v_video_id :: pystr
  v_filename :: pystr
  v_title :: "pystr option"
  v_description :: "pystr option"
  v_duration :: "rat option"
  v_r2_url :: "pystr option"
  v_r2_key :: "pystr option"
  v_tiktok_description :: "pystr option"
  v_created_at :: nat
  v_updated_at :: nat

type_synonym table = "pystr \<rightharpoonup> video"

text \<open>
  The ORM session: \<open>committed\<close> is what the database holds, \<open>working\<close> what the session
  sees, that is the committed rows with the pending (added or modified, not yet committed)
  ones on top. \<open>rollbacks\<close> counts the calls of \<open>session.rollback()\<close>.
\<close>

record db_session =
  committed :: table
  working :: table
  rollbacks :: nat

definition new_session :: "table \<Rightarrow> db_session" where
  "new_session db = \<lparr>committed = db, working = db, rollbacks = 0\<rparr>"

definition session_write :: "pystr \<Rightarrow> video \<Rightarrow> db_session \<Rightarrow> db_session" where
  "session_write k row s = s\<lparr>working := (working s)(k \<mapsto> row)\<rparr>"

definition session_commit :: "db_session \<Rightarrow> db_session" where
  "session_commit s = s\<lparr>committed := working s\<rparr>"

definition session_rollback :: "db_session \<Rightarrow> db_session" where
  "session_rollback s = s\<lparr>working := committed s, rollbacks := rollbacks s + 1\<rparr>"

section \<open>process_youtube_video.py: publishing the clips\<close>

record r2_config =
  cfg_access_key :: pystr
  cfg_secret_key :: pystr
  cfg_endpoint :: pystr
  cfg_bucket :: pystr
  cfg_public_url :: pystr

text \<open>
  What the outside world does while one file is processed: the first external call that
  raises, if any. \<open>QueryRaises\<close> is the \<open>session.query\<close> before the \<open>try\<close> block (nothing
  catches it); the other three raise inside the \<open>try\<close> block.
\<close>

datatype publish_io = QueryRaises | OpenRaises | PutObjectRaises | CommitRaises | AllSucceed

record pub_state =
  session :: db_session
  put_calls :: "pystr list"
  uploaded :: nat

text \<open>\<open>filename.replace('.mp4', '')\<close>, the identifier under which a clip is recorded.\<close>

definition short_id :: "pystr \<Rightarrow> pystr" where
  "short_id filename = replace_str (py ''.mp4'') [] filename"

text \<open>
  The body of the loop of \<open>upload_shorts_to_r2_and_db\<close> for one file whose query did not
  raise. \<open>put_calls\<close> records the key of every \<open>put_object\<close> call made. Every path through
  the \<open>except\<close> clause ends in \<open>session.rollback()\<close>.
\<close>

definition publish_short ::
  "r2_config \<Rightarrow> video_info \<Rightarrow> (pystr \<Rightarrow> publish_io) \<Rightarrow> (pystr \<Rightarrow> nat) \<Rightarrow> pystr \<Rightarrow> pub_state
     \<Rightarrow> pub_state" where
  "publish_short r2_config video_info io clock filename st =
     (let short_video_id = short_id filename;
          existing = working (session st) short_video_id
      in if (case existing of Some e \<Rightarrow> truthy (v_r2_url e) | None \<Rightarrow> False) then st
         else if io filename = OpenRaises
           then st\<lparr>session := session_rollback (session st)\<rparr>
         else
           (let object_key = py ''videos/'' @ filename;
                st1 = st\<lparr>put_calls := put_calls st @ [object_key]\<rparr>
            in if io filename = PutObjectRaises
                 then st1\<lparr>session := session_rollback (session st1)\<rparr>
               else
                 (let r2_url = cfg_public_url r2_config @ py ''/'' @ object_key;
                      row =
                        (case existing of
                           Some e \<Rightarrow>
                             Some (e\<lparr>v_r2_url := Some r2_url, v_r2_key := Some object_key,
                                     v_updated_at := clock filename\<rparr>)
                         | None \<Rightarrow>
                             (case (info_title video_info, info_description video_info,
                                    info_duration video_info) of
                                (Some t, Some d, Some du) \<Rightarrow>
                                  Some \<lparr>v_video_id = short_video_id, v_filename = filename,
                                        v_title = Some t, v_description = Some d,
                                        v_duration = Some du, v_r2_url = Some r2_url,
                                        v_r2_key = Some object_key,
                                        v_tiktok_description = None,
                                        v_created_at = clock filename,
                                        v_updated_at = clock filename\<rparr>
                              | _ \<Rightarrow> None))
                  in case row of
                       None \<Rightarrow> st1\<lparr>session := session_rollback (session st1)\<rparr>
                     | Some r \<Rightarrow>
                         (let s1 = session_write short_video_id r (session st1)
                          in if io filename = CommitRaises
                               then st1\<lparr>session := session_rollback s1\<rparr>
                             else st1\<lparr>session := session_commit s1,
                                      uploaded := uploaded st1 + 1\<rparr>))))"

text \<open>The loop: the first component tells whether an exception left the function.\<close>

fun publish_loop ::
  "r2_config \<Rightarrow> video_info \<Rightarrow> (pystr \<Rightarrow> publish_io) \<Rightarrow> (pystr \<Rightarrow> nat) \<Rightarrow> pystr list \<Rightarrow> pub_state
     \<Rightarrow> bool \<times> pub_state" where
  "publish_loop r2_config video_info io clock [] st = (False, st)"
| "publish_loop r2_config video_info io clock (filename # rest) st =
     (if io filename = QueryRaises then (True, st)
      else publish_loop r2_config video_info io clock rest
             (publish_short r2_config video_info io clock filename st))"

text \<open>
  \<open>upload_shorts_to_r2_and_db\<close>. \<open>shorts_dir\<close> is given by its listing, \<open>database_url\<close> by
  whether connecting succeeds and by the table behind it. The result is \<open>Some b\<close> when the
  function returns \<open>b\<close> and \<open>None\<close> when an exception leaves it.
\<close>

definition upload_shorts_to_r2_and_db ::
  "pystr \<Rightarrow> pystr list \<Rightarrow> video_info \<Rightarrow> r2_config \<Rightarrow> bool \<Rightarrow> table \<Rightarrow> (pystr \<Rightarrow> publish_io)
     \<Rightarrow> (pystr \<Rightarrow> nat) \<Rightarrow> bool option \<times> pub_state" where
  "upload_shorts_to_r2_and_db video_id shorts_dir video_info r2_config db_connects db io clock =
     (let st0 = \<lparr>session = new_session db, put_calls = [], uploaded = 0\<rparr>
      in if \<not> db_connects then (Some False, st0)
         else
           (let shorts = filter (\<lambda>f. suffix (py ''.mp4'') f) shorts_dir;
                r = publish_loop r2_config video_info io clock shorts st0
            in if fst r then (None, snd r) else (Some (0 < uploaded (snd r)), snd r)))"

section \<open>process_youtube_video.py: the workflow\<close>

record environment =
  env_VIDEO_ID :: "pystr option"
  env_R2_SHORTS_ACCESS_KEY :: "pystr option"
  env_R2_SHORTS_SECRET_KEY :: "pystr option"
  env_R2_SHORTS_ENDPOINT :: "pystr option"
  env_R2_SHORTS_BUCKET :: "pystr option"
  env_R2_SHORTS_PUBLIC_URL :: "pystr option"
  env_DATABASE_URL :: "pystr option"

text \<open>
  Everything \<open>main\<close> gets from outside: the environment, the downloaded file (\<open>None\<close> when
  \<open>download_youtube_video\<close> returns \<open>None\<close>), the info file (\<open>None\<close> when it does not
  exist), the \<open>ffprobe\<close> result, the result of \<open>cut_video_segment\<close> for each output path,
  and what the publishing step meets.
\<close>

record world =
  w_env :: environment
  w_download :: "pystr option"
  w_info_file :: "video_info option"
  w_probe :: "rat option"
  w_cut :: "pystr \<Rightarrow> bool"
  w_db_connects :: bool
  w_db :: table
  w_shorts_dir :: "pystr list"
  w_io :: "pystr \<Rightarrow> publish_io"
  w_clock :: "pystr \<Rightarrow> nat"

definition get_video_info :: "pystr \<Rightarrow> video_info option \<Rightarrow> video_info" where
  "get_video_info video_id info_file =
     (case info_file of
        Some info \<Rightarrow>
          \<lparr>info_title = Some (case info_title info of Some t \<Rightarrow> t | None \<Rightarrow> video_id),
           info_description = Some (case info_description info of Some d \<Rightarrow> d | None \<Rightarrow> []),
           info_duration = Some (case info_duration info of Some d \<Rightarrow> d | None \<Rightarrow> 0)\<rparr>
      | None \<Rightarrow> \<lparr>info_title = Some video_id, info_description = Some [], info_duration = Some 0\<rparr>)"

definition env_value :: "pystr option \<Rightarrow> pystr" where
  "env_value v = (case v of Some s \<Rightarrow> s | None \<Rightarrow> [])"

text \<open>
  The outcome of a run: the exit code, and the result of the publishing step when the
  run reached it (\<open>None\<close> when the process exited before).
\<close>

record run =
  exit_code :: nat
  published :: "(bool option \<times> pub_state) option"

text \<open>
  \<open>main\<close>. The number of clips cut is the number of segments for which
  \<open>cut_video_segment\<close> returned true. An exception that leaves \<open>main\<close> ends the process
  with exit code 1.
\<close>

definition main :: "(nat \<Rightarrow> bool) \<Rightarrow> world \<Rightarrow> run" where
  "main isalnum w =
     (let e = w_env w
      in if \<not> (truthy (env_VIDEO_ID e) \<and> truthy (env_R2_SHORTS_ACCESS_KEY e)
                \<and> truthy (env_R2_SHORTS_SECRET_KEY e) \<and> truthy (env_R2_SHORTS_ENDPOINT e)
                \<and> truthy (env_R2_SHORTS_BUCKET e) \<and> truthy (env_R2_SHORTS_PUBLIC_URL e)
                \<and> truthy (env_DATABASE_URL e))
         then \<lparr>exit_code = 1, published = None\<rparr>
         else
           (let video_id = env_value (env_VIDEO_ID e)
            in case w_download w of
                 None \<Rightarrow> \<lparr>exit_code = 1, published = None\<rparr>
               | Some video_file \<Rightarrow>
                   (let video_info = get_video_info video_id (w_info_file w);
                        segments = create_segments video_id (w_probe w) video_info;
                        successful =
                          length (filter
                            (\<lambda>(i, segment).
                               w_cut w (py ''shorts/'' @ video_id @ py ''_''
                                        @ sanitize_filename isalnum (seg_title segment) 50
                                        @ py ''_'' @ str_int (int i) @ py ''.mp4''))
                            (zip [1 ..< length segments + 1] segments))
                    in if successful = 0 then \<lparr>exit_code = 1, published = None\<rparr>
                       else
                         (let r2_config =
                                \<lparr>cfg_access_key = env_value (env_R2_SHORTS_ACCESS_KEY e),
                                 cfg_secret_key = env_value (env_R2_SHORTS_SECRET_KEY e),
                                 cfg_endpoint = env_value (env_R2_SHORTS_ENDPOINT e),
                                 cfg_bucket = env_value (env_R2_SHORTS_BUCKET e),
                                 cfg_public_url = env_value (env_R2_SHORTS_PUBLIC_URL e)\<rparr>;
                              r = upload_shorts_to_r2_and_db video_id (w_shorts_dir w) video_info
                                    r2_config (w_db_connects w) (w_db w) (w_io w) (w_clock w)
                          in \<lparr>exit_code = (if fst r = Some True then 0 else 1),
                              published = Some r\<rparr>))))"

section \<open>upload_shorts_to_r2.py\<close>

text \<open>
  What the outside world does while one file is uploaded: the first call that raises, if
  any, and with which kind of exception (\<open>ClientError\<close> or another one). The database
  calls raise errors of the ORM, never \<open>ClientError\<close>.
\<close>

datatype upload_io =
  UploadClientError | UploadOtherError | HeadClientError | HeadOtherError
  | QueryError | CommitError | Succeeds

record upload_state =
  u_session :: db_session
  upload_calls :: "pystr list"
  success_count :: nat
  failed_count :: nat

text \<open>
  The body of the upload loop. \<open>upload_calls\<close> records the key of every \<open>upload_file\<close>
  call. No handler of this script calls \<open>session.rollback()\<close>: after a failed commit the
  pending row stays in the session.
\<close>

definition upload_one ::
  "pystr \<Rightarrow> pystr \<Rightarrow> (pystr \<Rightarrow> upload_io) \<Rightarrow> (pystr \<Rightarrow> nat) \<Rightarrow> pystr \<Rightarrow> upload_state
     \<Rightarrow> upload_state" where
  "upload_one VIDEO_ID R2_PUBLIC_URL io clock filename st =
     (let key = VIDEO_ID @ py ''/'' @ filename;
          st1 = st\<lparr>upload_calls := upload_calls st @ [key]\<rparr>
      in case io filename of
           UploadClientError \<Rightarrow> st1\<lparr>failed_count := failed_count st1 + 1\<rparr>
         | UploadOtherError \<Rightarrow> st1\<lparr>failed_count := failed_count st1 + 1\<rparr>
         | HeadClientError \<Rightarrow> st1\<lparr>success_count := success_count st1 + 1\<rparr>
         | HeadOtherError \<Rightarrow> st1\<lparr>failed_count := failed_count st1 + 1\<rparr>
         | QueryError \<Rightarrow> st1\<lparr>failed_count := failed_count st1 + 1\<rparr>
         | _ \<Rightarrow>
             (let r2_url = R2_PUBLIC_URL @ py ''/videos/'' @ filename;
                  short_name = short_id filename;
                  existing = working (u_session st1) short_name;
                  row =
                    (case existing of
                       Some e \<Rightarrow> e\<lparr>v_r2_url := Some r2_url, v_r2_key := Some key,
                                  v_updated_at := clock filename\<rparr>
                     | None \<Rightarrow>
                         \<lparr>v_video_id = short_name, v_filename = filename, v_title = None,
                          v_description = None, v_duration = None, v_r2_url = Some r2_url,
                          v_r2_key = Some key, v_tiktok_description = None,
                          v_created_at = clock filename, v_updated_at = clock filename\<rparr>);
                  s1 = session_write short_name row (u_session st1)
              in if io filename = CommitError
                   then st1\<lparr>u_session := s1, failed_count := failed_count st1 + 1\<rparr>
                 else st1\<lparr>u_session := session_commit s1,
                          success_count := success_count st1 + 1\<rparr>))"

definition upload_all ::
  "pystr \<Rightarrow> pystr \<Rightarrow> (pystr \<Rightarrow> upload_io) \<Rightarrow> (pystr \<Rightarrow> nat) \<Rightarrow> pystr list \<Rightarrow> upload_state
     \<Rightarrow> upload_state" where
  "upload_all VIDEO_ID R2_PUBLIC_URL io clock shorts_files st =
     foldl (\<lambda>s filename. upload_one VIDEO_ID R2_PUBLIC_URL io clock filename s) st shorts_files"

record upload_environment =
  uenv_R2_ACCESS_KEY :: "pystr option"
  uenv_R2_SECRET_KEY :: "pystr option"
  uenv_R2_ENDPOINT :: "pystr option"
  uenv_R2_BUCKET :: "pystr option"
  uenv_R2_PUBLIC_URL :: "pystr option"
  uenv_VIDEO_ID :: "pystr option"
  uenv_DATABASE_URL :: "pystr option"

record upload_world =
  uw_env :: upload_environment
  uw_client_created :: bool
  uw_db_connects :: bool
  uw_db :: table
  uw_shorts_dir :: "pystr list option"
  uw_io :: "pystr \<Rightarrow> upload_io"
  uw_clock :: "pystr \<Rightarrow> nat"

record upload_run =
  u_exit_code :: nat
  u_final :: "upload_state option"

text \<open>
  The script as a whole: the checks of the environment and of \<open>DATABASE_URL\<close>, the
  client and the connection, the listing of \<open>shorts\<close> (\<open>None\<close> when the directory does
  not exist), the loop, and the exit code.
\<close>

definition upload_shorts_to_r2 :: "upload_world \<Rightarrow> upload_run" where
  "upload_shorts_to_r2 w =
     (let e = uw_env w;
          VIDEO_ID = env_value (uenv_VIDEO_ID e);
          DATABASE_URL = env_value (uenv_DATABASE_URL e)
      in if \<not> (truthy (uenv_VIDEO_ID e) \<and> truthy (uenv_R2_ACCESS_KEY e)
                \<and> truthy (uenv_R2_SECRET_KEY e) \<and> truthy (uenv_R2_ENDPOINT e)
                \<and> truthy (uenv_R2_BUCKET e) \<and> truthy (uenv_R2_PUBLIC_URL e))
           then \<lparr>u_exit_code = 1, u_final = None\<rparr>
         else if \<not> truthy (uenv_DATABASE_URL e)
           then \<lparr>u_exit_code = 1, u_final = None\<rparr>
         else if sublist (py ''localhost'') DATABASE_URL \<or> sublist (py ''127.0.0.1'') DATABASE_URL
                 \<or> sublist (py ''/var/run/postgresql'') DATABASE_URL
           then \<lparr>u_exit_code = 1, u_final = None\<rparr>
         else if \<not> prefix (py ''postgresql'') DATABASE_URL
           then \<lparr>u_exit_code = 1, u_final = None\<rparr>
         else if \<not> uw_client_created w then \<lparr>u_exit_code = 1, u_final = None\<rparr>
         else if \<not> uw_db_connects w then \<lparr>u_exit_code = 1, u_final = None\<rparr>
         else
           (case uw_shorts_dir w of
              None \<Rightarrow> \<lparr>u_exit_code = 1, u_final = None\<rparr>
            | Some listing \<Rightarrow>
                (let shorts_files =
                       filter (\<lambda>f. prefix VIDEO_ID f \<and> suffix (py ''.mp4'') f) listing
                 in if shorts_files = [] then \<lparr>u_exit_code = 1, u_final = None\<rparr>
                    else
                      (let st = upload_all VIDEO_ID (env_value (uenv_R2_PUBLIC_URL e)) (uw_io w)
                                  (uw_clock w) shorts_files
                                  \<lparr>u_session = new_session (uw_db w), upload_calls = [],
                                   success_count = 0, failed_count = 0\<rparr>
                       in \<lparr>u_exit_code = (if success_count st = 0 then 1 else 0),
                           u_final = Some st\<rparr>))))"

text \<open>A row of a clip that was published before, for the examples.\<close>

definition published_row :: video where
  "published_row =
     \<lparr>v_video_id = py ''vid_1'', v_filename = py ''vid_1.mp4'', v_title = Some (py ''A title''),
      v_description = Some [], v_duration = Some 185,
      v_r2_url = Some (py ''https://old/videos/vid_1.mp4''), v_r2_key = Some (py ''videos/vid_1.mp4''),
      v_tiktok_description = None, v_created_at = 1, v_updated_at = 1\<rparr>"

section \<open>Properties of the string helpers\<close>

lemma replace_str_remove: "replace_str [c] [] s = filter (\<lambda>x. x \<noteq> c) s"
  by (induction s) auto

lemma replace_str_subst: "replace_str [a] [b] s = map (\<lambda>x. if x = a then b else x) s"
  by (induction s) auto

lemma foldl_remove:
  "foldl (\<lambda>t char. replace_str [char] [] t) s cs = filter (\<lambda>x. x \<notin> set cs) s"
proof (induction cs arbitrary: s)
  case Nil
  then show ?case by simp
next
  case (Cons c cs)
  have "filter (\<lambda>x. x \<notin> set cs) (filter (\<lambda>x. x \<noteq> c) s) = filter (\<lambda>x. x \<notin> set (c # cs)) s"
    by (induction s) auto
  with Cons show ?case by (simp add: replace_str_remove)
qed

lemma dropWhile_last_not:
  assumes "dropWhile P xs \<noteq> []"
  shows "last (dropWhile P xs) = last xs"
proof -
  have "xs = takeWhile P xs @ dropWhile P xs" by simp
  then have "last xs = last (takeWhile P xs @ dropWhile P xs)" by simp
  also have "\<dots> = last (dropWhile P xs)" using assms by (simp del: takeWhile_dropWhile_id)
  finally show ?thesis by simp
qed

lemma strip_fixed:
  assumes "s = [] \<or> (\<not> P (hd s) \<and> \<not> P (last s))"
  shows "rev (dropWhile P (rev (dropWhile P s))) = s"
proof (cases "s = []")
  case True
  then show ?thesis by simp
next
  case False
  with assms have h: "\<not> P (hd s)" and l: "\<not> P (last s)" by auto
  from False h have d: "dropWhile P s = s" by (cases s) auto
  from False l have "dropWhile P (rev s) = rev s" by (cases "rev s") (auto simp: last_rev hd_rev)
  with d show ?thesis by simp
qed

lemma strip_ends:
  defines "r \<equiv> (\<lambda>P s. rev (dropWhile P (rev (dropWhile P s))))"
  shows "r P s = [] \<or> (\<not> P (hd (r P s)) \<and> \<not> P (last (r P s)))"
proof (cases "r P s = []")
  case True
  then show ?thesis by simp
next
  case False
  let ?d = "dropWhile P s"
  let ?e = "dropWhile P (rev ?d)"
  from False have e: "?e \<noteq> []" by (simp add: r_def)
  have "\<And>xs. dropWhile P (rev xs) \<noteq> [] \<Longrightarrow> xs \<noteq> []" by auto
  from this [OF e] have dne: "?d \<noteq> []" .
  have "\<not> P (hd ?e)" using e by (metis hd_dropWhile)
  then have l: "\<not> P (last (r P s))" using e by (simp add: r_def last_rev)
  have "last ?e = last (rev ?d)" using e by (rule dropWhile_last_not)
  also have "\<dots> = hd ?d" using dne by (simp add: last_rev)
  finally have "last ?e = hd ?d" .
  moreover have "\<not> P (hd ?d)" using dne by (metis hd_dropWhile)
  ultimately have "\<not> P (hd (r P s))" using e by (simp add: r_def hd_rev)
  with l show ?thesis by simp
qed

lemma strip_idem:
  "rev (dropWhile P (rev (dropWhile P (rev (dropWhile P (rev (dropWhile P s))))))) =
   rev (dropWhile P (rev (dropWhile P s)))"
  by (rule strip_fixed) (use strip_ends [of P s] in simp)

lemma strip_set: "set (rev (dropWhile P (rev (dropWhile P s)))) \<subseteq> set s"
proof -
  have "set (dropWhile P (rev (dropWhile P s))) \<subseteq> set (rev (dropWhile P s))"
    by (rule set_dropWhileD [THEN subsetI]) 
  also have "\<dots> \<subseteq> set s" by (auto dest: set_dropWhileD)
  finally show ?thesis by simp
qed

lemma strip_length: "length (rev (dropWhile P (rev (dropWhile P s)))) \<le> length s"
proof -
  have "length (dropWhile P (rev (dropWhile P s))) \<le> length (rev (dropWhile P s))"
    by (rule length_dropWhile_le)
  also have "\<dots> \<le> length s" by (simp add: length_dropWhile_le)
  finally show ?thesis by simp
qed

section \<open>File-name sanitisation\<close>

lemma strip_chars_fixed_def:
  "py_strip_chars cs s = rev (dropWhile (\<lambda>c. c \<in> set cs) (rev (dropWhile (\<lambda>c. c \<in> set cs) s)))"
  by (simp add: py_strip_chars_def)

lemma sanitize_filename_eq:
  "sanitize_filename isalnum s 50 =
     py_strip_chars [95] (take 50 (filter (\<lambda>c. isalnum c \<or> c = 95 \<or> c = 45)
        (map (\<lambda>x. if x = 32 then 95 else x) (filter (\<lambda>x. x \<notin> set invalid_chars) s))))"
  by (simp add: sanitize_filename_def Let_def foldl_remove replace_str_subst py_slice_to_def)

lemma sanitize_filename_chars:
  assumes "c \<in> set (sanitize_filename isalnum s 50)"
  shows "c \<notin> set invalid_chars \<and> c \<noteq> 32 \<and> (isalnum c \<or> c = 95 \<or> c = 45)"
proof -
  let ?t3 = "filter (\<lambda>c. isalnum c \<or> c = 95 \<or> c = 45)
        (map (\<lambda>x. if x = 32 then 95 else x) (filter (\<lambda>x. x \<notin> set invalid_chars) s))"
  have "set (sanitize_filename isalnum s 50) \<subseteq> set (take 50 ?t3)"
    unfolding sanitize_filename_eq strip_chars_fixed_def by (rule strip_set)
  with assms have "c \<in> set (take 50 ?t3)" by blast
  then have "c \<in> set ?t3" by (rule in_set_takeD)
  then show ?thesis by (auto simp: invalid_chars_def split: if_splits)
qed

lemma sanitize_filename_length: "length (sanitize_filename isalnum s 50) \<le> 50"
proof -
  have "length (sanitize_filename isalnum s 50) \<le> length (take 50 (filter (\<lambda>c. isalnum c \<or> c = 95 \<or> c = 45)
        (map (\<lambda>x. if x = 32 then 95 else x) (filter (\<lambda>x. x \<notin> set invalid_chars) s))))"
    unfolding sanitize_filename_eq strip_chars_fixed_def by (rule strip_length)
  then show ?thesis by simp
qed

text \<open>
  C5. Sanitising a file name twice gives the same result as sanitising it once; the
  result contains none of the characters \<open><>:"/\|?*\<close> and no space, and has at most 50
  characters. This holds whatever the interpreter's \<open>isalnum\<close> table is.
\<close>

theorem sanitize_filename_idempotent:
  "sanitize_filename isalnum (sanitize_filename isalnum s 50) 50 = sanitize_filename isalnum s 50
   \<and> set (sanitize_filename isalnum s 50) \<inter> (set invalid_chars \<union> {32}) = {}
   \<and> length (sanitize_filename isalnum s 50) \<le> 50"
proof -
  let ?o = "sanitize_filename isalnum s 50"
  have c: "\<And>c. c \<in> set ?o \<Longrightarrow> c \<notin> set invalid_chars \<and> c \<noteq> 32 \<and> (isalnum c \<or> c = 95 \<or> c = 45)"
    by (rule sanitize_filename_chars)
  have f1: "filter (\<lambda>x. x \<notin> set invalid_chars) ?o = ?o"
    using c by (simp add: filter_id_conv)
  have f2: "map (\<lambda>x. if x = 32 then 95 else x) ?o = ?o"
    using c by (simp add: map_idI)
  have f3: "filter (\<lambda>c. isalnum c \<or> c = 95 \<or> c = 45) ?o = ?o"
    using c by (simp add: filter_id_conv)
  have f4: "take 50 ?o = ?o"
    using sanitize_filename_length [of isalnum s] by simp
  have "sanitize_filename isalnum ?o 50 = py_strip_chars [95] ?o"
    by (subst sanitize_filename_eq) (simp only: f1 f2 f3 f4)
  also have "\<dots> = ?o"
    unfolding sanitize_filename_eq strip_chars_fixed_def by (rule strip_idem)
  finally have i: "sanitize_filename isalnum ?o 50 = ?o" .
  have "set ?o \<inter> (set invalid_chars \<union> {32}) = {}"
    using c by auto
  with i sanitize_filename_length [of isalnum s] show ?thesis by simp
qed

section \<open>Timestamps\<close>


lemma py_int_nonneg: "0 \<le> x \<Longrightarrow> py_int x = \<lfloor>x\<rfloor>"
  by (simp add: py_int_def)


























section \<open>Segments\<close>

lemma py_int_floordiv: "py_int (py_floordiv x m) = \<lfloor>x / m\<rfloor>"
  by (simp add: py_int_def py_floordiv_def)

lemma full_window:
  fixes D :: rat
  assumes "i < nat (min \<lfloor>D / 60\<rfloor> k)"
  shows "of_nat i * 60 + 60 \<le> D"
proof -
  from assms have "int i + 1 \<le> \<lfloor>D / 60\<rfloor>" by simp
  then have "of_int (int i + 1) \<le> D / 60" by (simp only: le_floor_iff)
  then have "(of_nat i + 1) * 60 \<le> D" by (simp add: pos_le_divide_eq)
  then show ?thesis by (simp add: algebra_simps)
qed

lemma window_end:
  fixes D :: rat
  assumes "i < nat (min \<lfloor>D / 60\<rfloor> k)"
  shows "min (of_nat i * 60 + 60) D = of_nat i * 60 + 60"
  using full_window [OF assms] by simp

lemma create_segments_eq:
  "create_segments video_id probe video_info =
     map (\<lambda>i. \<lparr>seg_start = of_nat i * 60, seg_end = of_nat i * 60 + 60,
               seg_title = (case info_title video_info of Some t \<Rightarrow> t | None \<Rightarrow> video_id)
                           @ py '' - Part '' @ str_int (int i + 1),
               seg_description = py ''Part '' @ str_int (int i + 1) @ py '' of ''
                                 @ str_int (min \<lfloor>probed_duration video_info probe / 60\<rfloor> 10)\<rparr>)
         [0 ..< seg_count (probed_duration video_info probe)]"
  unfolding create_segments_def Let_def py_int_floordiv seg_count_def
  by (rule map_cong [OF refl]) (simp add: window_end)

lemma create_analysis_segments_eq:
  assumes "entries \<noteq> []" and "0 < D"
  shows "an_segments (create_analysis_json video_id (Some D) info (Some entries)) =
     map (\<lambda>i. \<lparr>as_start = of_nat i * 60, as_end = of_nat i * 60 + 60, as_duration = 60,
               as_title = (case info of None \<Rightarrow> video_id
                   | Some i \<Rightarrow> (case info_title i of Some t \<Rightarrow> t | None \<Rightarrow> video_id))
                           @ py '' - Part '' @ str_int (int i + 1),
               as_description =
                 (if segment_text_of entries (of_nat i * 60) (of_nat i * 60 + 60) \<noteq> []
                  then take 200 (py_strip (segment_text_of entries (of_nat i * 60) (of_nat i * 60 + 60)))
                  else py ''Segment '' @ str_int (int i + 1)),
               as_reason = py ''Auto-generated segment''\<rparr>)
         [0 ..< seg_count D]"
  using assms unfolding create_analysis_json_def Let_def py_int_floordiv seg_count_def
  by (simp add: window_end cong: map_cong)

lemma create_analysis_no_segments:
  "transcript = None \<or> transcript = Some [] \<or> probe = None \<or> (\<exists>D. probe = Some D \<and> D \<le> 0) \<Longrightarrow>
   an_segments (create_analysis_json video_id probe info transcript) = []"
  by (auto simp: create_analysis_json_def Let_def)

lemma tiles_union:
  "(\<Union>i<n. {of_nat i * 60 ..< of_nat i * 60 + (60::rat)}) = {0 ..< 60 * of_nat n}"
proof (induction n)
  case 0
  then show ?case by simp
next
  case (Suc n)
  have "(\<Union>i<Suc n. {of_nat i * 60 ..< of_nat i * 60 + (60::rat)}) =
        {0 ..< 60 * of_nat n} \<union> {of_nat n * 60 ..< of_nat n * 60 + 60}"
    using Suc by (simp add: lessThan_Suc Un_commute)
  also have "\<dots> = {0 ..< 60 * of_nat (Suc n)}"
    by (auto simp: algebra_simps)
  finally show ?case .
qed

lemma foldl_segment_text:
  "foldl (\<lambda>segment_text entry.
              if start \<le> entry_start entry \<and> entry_start entry < end'
              then segment_text @ entry_text entry @ py '' '' else segment_text) acc es =
   acc @ concat (map (\<lambda>e. entry_text e @ [32]) (filter (in_window start end') es))"
  by (induction es arbitrary: acc) (simp_all add: in_window_def py_def)

lemma segment_text_of_eq:
  "segment_text_of es start end' =
     concat (map (\<lambda>e. entry_text e @ [32]) (filter (in_window start end') es))"
  by (simp add: segment_text_of_def foldl_segment_text)

lemma concat_space_join:
  "ts \<noteq> [] \<Longrightarrow> concat (map (\<lambda>t. t @ [32]) ts) = space_join ts @ [32]"
  by (induction ts rule: space_join.induct) simp_all

lemma py_strip_trailing:
  assumes "py_isspace c"
  shows "py_strip (x @ [c]) = py_strip x"
proof (cases "\<forall>a\<in>set x. py_isspace a")
  case True
  then have "dropWhile py_isspace x = []" by simp
  moreover from True assms have "dropWhile py_isspace (x @ [c]) = []" by simp
  ultimately show ?thesis by (simp only: py_strip_def)
next
  case False
  then have "dropWhile py_isspace (x @ [c]) = dropWhile py_isspace x @ [c]"
    by (auto simp: dropWhile_append1)
  with assms show ?thesis by (simp add: py_strip_def)
qed

lemma segment_text_empty_iff:
  "segment_text_of es start end' = [] \<longleftrightarrow> filter (in_window start end') es = []"
proof -
  have "concat (map (\<lambda>e. entry_text e @ [32]) xs) = [] \<longleftrightarrow> xs = []" for xs :: "transcript_entry list"
    by (cases xs) simp_all
  then show ?thesis by (simp only: segment_text_of_eq)
qed

lemma strip_segment_text:
  assumes "filter (in_window start end') es \<noteq> []"
  shows "py_strip (segment_text_of es start end') =
         py_strip (space_join (map entry_text (filter (in_window start end') es)))"
proof -
  let ?m = "filter (in_window start end') es"
  have "segment_text_of es start end' = concat (map (\<lambda>t. t @ [32]) (map entry_text ?m))"
    by (simp add: segment_text_of_eq comp_def)
  also have "\<dots> = space_join (map entry_text ?m) @ [32]"
    using assms by (intro concat_space_join) simp
  finally show ?thesis by (simp add: py_strip_trailing py_isspace_def)
qed

text \<open>
  C7, as the code has it. In \<open>create_analysis_json\<close>, with a non-empty transcript and a
  positive duration, the description of a segment is the placeholder \<open>Segment i+1\<close> when
  no transcript entry starts in \<open>[start, end)\<close>, and otherwise the space-joined texts of
  those entries, stripped of leading and trailing whitespace and then cut to 200
  characters. Without a transcript \<open>create_analysis_json\<close> produces no segment at all.
  \<open>create_segments\<close> never reads a transcript: its descriptions are \<open>Part i+1 of n\<close>.
\<close>

theorem segment_descriptions:
  "(entries \<noteq> [] \<and> 0 < D \<longrightarrow>
      (let segs = an_segments (create_analysis_json video_id (Some D) info (Some entries))
       in length segs = seg_count D \<and>
          (\<forall>i < seg_count D.
             let matching = filter (in_window (as_start (segs ! i)) (as_end (segs ! i))) entries
             in as_description (segs ! i) =
                  (if matching = [] then py ''Segment '' @ str_int (int i + 1)
                   else take 200 (py_strip (space_join (map entry_text matching)))))))
   \<and> an_segments (create_analysis_json video_id probe info None) = []
   \<and> (let segs = create_segments video_id probe video_info
      in \<forall>i < length segs.
           seg_description (segs ! i) =
             py ''Part '' @ str_int (int i + 1) @ py '' of '' @ str_int (int (length segs)))"
proof (intro conjI impI)
  assume a: "entries \<noteq> [] \<and> 0 < D"
  then have e: "entries \<noteq> []" and d: "0 < D" by simp_all
  note eq = create_analysis_segments_eq [OF e d, of video_id info]
  show "let segs = an_segments (create_analysis_json video_id (Some D) info (Some entries))
       in length segs = seg_count D \<and>
          (\<forall>i < seg_count D.
             let matching = filter (in_window (as_start (segs ! i)) (as_end (segs ! i))) entries
             in as_description (segs ! i) =
                  (if matching = [] then py ''Segment '' @ str_int (int i + 1)
                   else take 200 (py_strip (space_join (map entry_text matching)))))"
    unfolding Let_def eq
    by (simp add: segment_text_empty_iff strip_segment_text)
next
  show "an_segments (create_analysis_json video_id probe info None) = []"
    by (rule create_analysis_no_segments) simp
next
  have n: "int (seg_count D') = min \<lfloor>D' / 60\<rfloor> 10" if "0 < seg_count D'" for D'
    using that by (simp add: seg_count_def)
  show "let segs = create_segments video_id probe video_info
      in \<forall>i < length segs.
           seg_description (segs ! i) =
             py ''Part '' @ str_int (int i + 1) @ py '' of '' @ str_int (int (length segs))"
    unfolding Let_def create_segments_eq
  proof (intro allI impI)
    fix i
    assume "i < length (map (\<lambda>i. \<lparr>seg_start = of_nat i * 60, seg_end = of_nat i * 60 + 60,
               seg_title = (case info_title video_info of Some t \<Rightarrow> t | None \<Rightarrow> video_id)
                           @ py '' - Part '' @ str_int (int i + 1),
               seg_description = py ''Part '' @ str_int (int i + 1) @ py '' of ''
                                 @ str_int (min \<lfloor>probed_duration video_info probe / 60\<rfloor> 10)\<rparr>)
         [0 ..< seg_count (probed_duration video_info probe)])"
    then have i: "i < seg_count (probed_duration video_info probe)" by simp
    then have "0 < seg_count (probed_duration video_info probe)" by simp
    from n [OF this] i
    show "seg_description (map (\<lambda>i. \<lparr>seg_start = of_nat i * 60, seg_end = of_nat i * 60 + 60,
               seg_title = (case info_title video_info of Some t \<Rightarrow> t | None \<Rightarrow> video_id)
                           @ py '' - Part '' @ str_int (int i + 1),
               seg_description = py ''Part '' @ str_int (int i + 1) @ py '' of ''
                                 @ str_int (min \<lfloor>probed_duration video_info probe / 60\<rfloor> 10)\<rparr>)
         [0 ..< seg_count (probed_duration video_info probe)] ! i) =
         py ''Part '' @ str_int (int i + 1) @ py '' of '' @
         str_int (int (length (map (\<lambda>i. \<lparr>seg_start = of_nat i * 60, seg_end = of_nat i * 60 + 60,
               seg_title = (case info_title video_info of Some t \<Rightarrow> t | None \<Rightarrow> video_id)
                           @ py '' - Part '' @ str_int (int i + 1),
               seg_description = py ''Part '' @ str_int (int i + 1) @ py '' of ''
                                 @ str_int (min \<lfloor>probed_duration video_info probe / 60\<rfloor> 10)\<rparr>)
         [0 ..< seg_count (probed_duration video_info probe)])))"
      by simp
  qed
qed

lemma create_segments_length:
  "length (create_segments video_id probe video_info) = seg_count (probed_duration video_info probe)"
  by (simp add: create_segments_eq)

lemma create_segments_bounds:
  assumes "i < seg_count (probed_duration video_info probe)"
  shows "seg_start (create_segments video_id probe video_info ! i) = of_nat i * 60"
    and "seg_end (create_segments video_id probe video_info ! i) = of_nat i * 60 + 60"
  using assms by (simp_all add: create_segments_eq)

lemma create_segments_cover:
  "(\<Union>s\<in>set (create_segments video_id probe video_info). {seg_start s ..< seg_end s}) =
   {0 ..< 60 * of_nat (seg_count (probed_duration video_info probe))}"
proof -
  have "(\<Union>s\<in>set (create_segments video_id probe video_info). {seg_start s ..< seg_end s}) =
        (\<Union>i<seg_count (probed_duration video_info probe). {of_nat i * 60 ..< of_nat i * 60 + (60::rat)})"
    by (simp add: create_segments_eq atLeast0LessThan image_image)
  then show ?thesis by (simp only: tiles_union)
qed

lemma analysis_segments_length:
  assumes "entries \<noteq> []" and "0 < D"
  shows "length (an_segments (create_analysis_json video_id (Some D) info (Some entries))) = seg_count D"
  by (simp add: create_analysis_segments_eq [OF assms])

lemma analysis_segments_bounds:
  assumes "entries \<noteq> []" and "0 < D" and "i < seg_count D"
  shows "as_start (an_segments (create_analysis_json video_id (Some D) info (Some entries)) ! i) = of_nat i * 60"
    and "as_end (an_segments (create_analysis_json video_id (Some D) info (Some entries)) ! i) = of_nat i * 60 + 60"
    and "as_duration (an_segments (create_analysis_json video_id (Some D) info (Some entries)) ! i) = 60"
  using assms(3) by (simp_all add: create_analysis_segments_eq [OF assms(1,2)])

lemma analysis_segments_cover:
  assumes "entries \<noteq> []" and "0 < D"
  shows "(\<Union>s\<in>set (an_segments (create_analysis_json video_id (Some D) info (Some entries))).
            {as_start s ..< as_end s}) = {0 ..< 60 * of_nat (seg_count D)}"
proof -
  have "(\<Union>s\<in>set (an_segments (create_analysis_json video_id (Some D) info (Some entries))).
            {as_start s ..< as_end s}) =
        (\<Union>i<seg_count D. {of_nat i * 60 ..< of_nat i * 60 + (60::rat)})"
    by (simp add: create_analysis_segments_eq [OF assms] atLeast0LessThan image_image)
  then show ?thesis by (simp only: tiles_union)
qed

lemma tiles_ordered:
  fixes i j :: nat
  assumes "i < j"
  shows "(of_nat i * 60 :: rat) < of_nat j * 60" and "(of_nat i * 60 + 60 :: rat) \<le> of_nat j * 60"
proof -
  from assms show "(of_nat i * 60 :: rat) < of_nat j * 60" by simp
  from assms have "Suc i \<le> j" by simp
  then have "(of_nat (Suc i) :: rat) \<le> of_nat j" by (simp only: of_nat_le_iff)
  then show "(of_nat i * 60 + 60 :: rat) \<le> of_nat j * 60" by simp
qed

text \<open>
  C1, as the code has it. \<open>create_segments\<close> produces \<open>min(floor(D/60), 10)\<close> segments,
  strictly ordered by start, none overlapping a later one, each non-empty and at most 60
  seconds long, and together they cover exactly \<open>[0, 60 * min(floor(D/60), 10))\<close>: the cap
  of 10 also caps what is covered. \<open>create_analysis_json\<close> does the same when it is given a
  non-empty transcript and a positive duration.
\<close>

theorem segments_tile_capped:
  "(let D = probed_duration video_info probe; segs = create_segments video_id probe video_info
    in length segs = nat (min \<lfloor>D / 60\<rfloor> 10) \<and>
       (\<forall>j < length segs. \<forall>i < j.
          seg_start (segs ! i) < seg_start (segs ! j) \<and> seg_end (segs ! i) \<le> seg_start (segs ! j)) \<and>
       (\<forall>s \<in> set segs. seg_start s < seg_end s \<and> seg_end s - seg_start s \<le> 60) \<and>
       (\<Union>s\<in>set segs. {seg_start s ..< seg_end s}) = {0 ..< 60 * of_int (min \<lfloor>D / 60\<rfloor> 10)})
   \<and> (entries \<noteq> [] \<and> 0 < D' \<longrightarrow>
       (let segs = an_segments (create_analysis_json video_id (Some D') info (Some entries))
        in length segs = nat (min \<lfloor>D' / 60\<rfloor> 10) \<and>
           (\<forall>j < length segs. \<forall>i < j.
              as_start (segs ! i) < as_start (segs ! j) \<and> as_end (segs ! i) \<le> as_start (segs ! j)) \<and>
           (\<forall>s \<in> set segs. as_start s < as_end s \<and> as_end s - as_start s \<le> 60) \<and>
           (\<Union>s\<in>set segs. {as_start s ..< as_end s}) = {0 ..< 60 * of_int (min \<lfloor>D' / 60\<rfloor> 10)}))"
proof (intro conjI impI)
  define D where "D = probed_duration video_info probe"
  define segs where "segs = create_segments video_id probe video_info"
  have len: "length segs = seg_count D" unfolding segs_def D_def by (rule create_segments_length)
  have st: "seg_start (segs ! i) = of_nat i * 60" and en: "seg_end (segs ! i) = of_nat i * 60 + 60"
    if "i < seg_count D" for i
    using that unfolding segs_def D_def by (rule create_segments_bounds)+
  have ord: "\<forall>j < length segs. \<forall>i < j.
          seg_start (segs ! i) < seg_start (segs ! j) \<and> seg_end (segs ! i) \<le> seg_start (segs ! j)"
  proof (intro allI impI)
    fix j i assume j: "j < length segs" and i: "i < j"
    then have "i < seg_count D" "j < seg_count D" using len by simp_all
    then show "seg_start (segs ! i) < seg_start (segs ! j) \<and> seg_end (segs ! i) \<le> seg_start (segs ! j)"
      using tiles_ordered [OF i] by (simp add: st en)
  qed
  have each: "\<forall>s \<in> set segs. seg_start s < seg_end s \<and> seg_end s - seg_start s \<le> 60"
  proof
    fix s assume "s \<in> set segs"
    then obtain i where "i < length segs" "s = segs ! i" by (auto simp: in_set_conv_nth)
    then show "seg_start s < seg_end s \<and> seg_end s - seg_start s \<le> 60"
      using len by (simp add: st en)
  qed
  have "0 < seg_count D \<Longrightarrow> int (seg_count D) = min \<lfloor>D / 60\<rfloor> 10" by (simp add: seg_count_def)
  moreover have "seg_count D = 0 \<Longrightarrow> min \<lfloor>D / 60\<rfloor> 10 \<le> 0" by (simp add: seg_count_def)
  ultimately have iv: "{0 ..< 60 * of_nat (seg_count D)} = {0 ..< 60 * (of_int (min \<lfloor>D / 60\<rfloor> 10) :: rat)}"
  proof (cases "seg_count D = 0")
    case True
    with \<open>seg_count D = 0 \<Longrightarrow> min \<lfloor>D / 60\<rfloor> 10 \<le> 0\<close> have "(of_int (min \<lfloor>D / 60\<rfloor> 10) :: rat) \<le> 0"
      by (simp only: of_int_le_0_iff)
    with True show ?thesis by (simp add: mult_le_0_iff)
  next
    case False
    with \<open>0 < seg_count D \<Longrightarrow> int (seg_count D) = min \<lfloor>D / 60\<rfloor> 10\<close>
    have "int (seg_count D) = min \<lfloor>D / 60\<rfloor> 10" by simp
    then have "(of_nat (seg_count D) :: rat) = of_int (min \<lfloor>D / 60\<rfloor> 10)"
      by (metis of_int_of_nat_eq)
    then show ?thesis by simp
  qed
  have cov: "(\<Union>s\<in>set segs. {seg_start s ..< seg_end s}) = {0 ..< 60 * of_int (min \<lfloor>D / 60\<rfloor> 10)}"
    unfolding segs_def using create_segments_cover [of video_id probe video_info] iv
    by (simp only: D_def)
  show "let D = probed_duration video_info probe; segs = create_segments video_id probe video_info
    in length segs = nat (min \<lfloor>D / 60\<rfloor> 10) \<and>
       (\<forall>j < length segs. \<forall>i < j.
          seg_start (segs ! i) < seg_start (segs ! j) \<and> seg_end (segs ! i) \<le> seg_start (segs ! j)) \<and>
       (\<forall>s \<in> set segs. seg_start s < seg_end s \<and> seg_end s - seg_start s \<le> 60) \<and>
       (\<Union>s\<in>set segs. {seg_start s ..< seg_end s}) = {0 ..< 60 * of_int (min \<lfloor>D / 60\<rfloor> 10)}"
    unfolding Let_def D_def [symmetric] segs_def [symmetric]
    using len [unfolded seg_count_def] ord each cov by blast
next
  assume a: "entries \<noteq> [] \<and> 0 < D'"
  then have e: "entries \<noteq> []" and d: "0 < D'" by simp_all
  define segs where "segs = an_segments (create_analysis_json video_id (Some D') info (Some entries))"
  have len: "length segs = seg_count D'" unfolding segs_def by (rule analysis_segments_length [OF e d])
  have st: "as_start (segs ! i) = of_nat i * 60" and en: "as_end (segs ! i) = of_nat i * 60 + 60"
    if "i < seg_count D'" for i
    using that unfolding segs_def by (rule analysis_segments_bounds [OF e d])+
  have ord: "\<forall>j < length segs. \<forall>i < j.
          as_start (segs ! i) < as_start (segs ! j) \<and> as_end (segs ! i) \<le> as_start (segs ! j)"
  proof (intro allI impI)
    fix j i assume j: "j < length segs" and i: "i < j"
    then have "i < seg_count D'" "j < seg_count D'" using len by simp_all
    then show "as_start (segs ! i) < as_start (segs ! j) \<and> as_end (segs ! i) \<le> as_start (segs ! j)"
      using tiles_ordered [OF i] by (simp add: st en)
  qed
  have each: "\<forall>s \<in> set segs. as_start s < as_end s \<and> as_end s - as_start s \<le> 60"
  proof
    fix s assume "s \<in> set segs"
    then obtain i where "i < length segs" "s = segs ! i" by (auto simp: in_set_conv_nth)
    then show "as_start s < as_end s \<and> as_end s - as_start s \<le> 60"
      using len by (simp add: st en)
  qed
  from d have "0 \<le> \<lfloor>D' / 60\<rfloor>" by simp
  then have "int (seg_count D') = min \<lfloor>D' / 60\<rfloor> 10" by (simp add: seg_count_def)
  then have "(of_nat (seg_count D') :: rat) = of_int (min \<lfloor>D' / 60\<rfloor> 10)"
    by (metis of_int_of_nat_eq)
  then have iv: "{0 ..< 60 * of_nat (seg_count D')} = {0 ..< 60 * (of_int (min \<lfloor>D' / 60\<rfloor> 10) :: rat)}"
    by simp
  have cov: "(\<Union>s\<in>set segs. {as_start s ..< as_end s}) = {0 ..< 60 * of_int (min \<lfloor>D' / 60\<rfloor> 10)}"
    unfolding segs_def using analysis_segments_cover [OF e d, of video_id info] iv by simp
  show "let segs = an_segments (create_analysis_json video_id (Some D') info (Some entries))
        in length segs = nat (min \<lfloor>D' / 60\<rfloor> 10) \<and>
           (\<forall>j < length segs. \<forall>i < j.
              as_start (segs ! i) < as_start (segs ! j) \<and> as_end (segs ! i) \<le> as_start (segs ! j)) \<and>
           (\<forall>s \<in> set segs. as_start s < as_end s \<and> as_end s - as_start s \<le> 60) \<and>
           (\<Union>s\<in>set segs. {as_start s ..< as_end s}) = {0 ..< 60 * of_int (min \<lfloor>D' / 60\<rfloor> 10)}"
    unfolding Let_def segs_def [symmetric]
    using len [unfolded seg_count_def] ord each cov by blast
qed

lemma seg_count_725: "seg_count 725 = 10" by code_simp
lemma seg_count_185: "seg_count 185 = 3" by code_simp
lemma seg_count_120: "seg_count 120 = 2" by code_simp

lemma probed_duration_given:
  "d \<noteq> 0 \<Longrightarrow> probed_duration \<lparr>info_title = t, info_description = x, info_duration = Some d\<rparr> probe = d"
  by (simp add: probed_duration_def)

text \<open>
  At 725 seconds: 10 segments covering \<open>[0, 600)\<close>; the analysis of 185 seconds has 3.
\<close>

theorem segments_tile_capped_witness:
  "length (create_segments (py ''abc123'') None
             \<lparr>info_title = None, info_description = None, info_duration = Some 725\<rparr>) = 10
   \<and> (\<Union>s\<in>set (create_segments (py ''abc123'') None
             \<lparr>info_title = None, info_description = None, info_duration = Some 725\<rparr>).
          {seg_start s ..< seg_end s}) = {0 ..< 600}
   \<and> [\<lparr>entry_start = 0, entry_text = py ''hi''\<rparr>] \<noteq> [] \<and> (0::rat) < 185
   \<and> length (an_segments (create_analysis_json (py ''abc123'') (Some 185) None
               (Some [\<lparr>entry_start = 0, entry_text = py ''hi''\<rparr>]))) = 3"
proof -
  have D: "probed_duration \<lparr>info_title = None, info_description = None, info_duration = Some 725\<rparr> None = 725"
    by (simp add: probed_duration_given)
  have F: "min \<lfloor>(725::rat) / 60\<rfloor> 10 = 10" by code_simp
  have G: "min \<lfloor>(185::rat) / 60\<rfloor> 10 = 3" by code_simp
  have h: "[\<lparr>entry_start = 0, entry_text = py ''hi''\<rparr>] \<noteq> [] \<and> (0::rat) < 185" by simp
  from segments_tile_capped [of "\<lparr>info_title = None, info_description = None, info_duration = Some 725\<rparr>"
      None "py ''abc123''" "[\<lparr>entry_start = 0, entry_text = py ''hi''\<rparr>]" 185 None]
  have "length (create_segments (py ''abc123'') None
             \<lparr>info_title = None, info_description = None, info_duration = Some 725\<rparr>) = nat 10
   \<and> (\<Union>s\<in>set (create_segments (py ''abc123'') None
             \<lparr>info_title = None, info_description = None, info_duration = Some 725\<rparr>).
          {seg_start s ..< seg_end s}) = {0 ..< 60 * of_int 10}
   \<and> length (an_segments (create_analysis_json (py ''abc123'') (Some 185) None
               (Some [\<lparr>entry_start = 0, entry_text = py ''hi''\<rparr>]))) = nat 3"
    using h unfolding Let_def D F G by blast
  with h show ?thesis by simp
qed

text \<open>
  C1 as stated fails where the cap applies: at 725 seconds the second 650 lies in
  \<open>[0, min(floor(725/60) * 60, 725)) = [0, 720)\<close> and in no segment.
\<close>

theorem segments_cover_counterexample:
  "(650::rat) \<in> {0 ..< min (of_int \<lfloor>(725::rat) / 60\<rfloor> * 60) 725}
   \<and> (650::rat) \<notin> (\<Union>s\<in>set (create_segments (py ''abc123'') None
                  \<lparr>info_title = None, info_description = None, info_duration = Some 725\<rparr>).
               {seg_start s ..< seg_end s})"
proof -
  have c: "(\<Union>s\<in>set (create_segments (py ''abc123'') None
                  \<lparr>info_title = None, info_description = None, info_duration = Some 725\<rparr>).
               {seg_start s ..< seg_end s}) = {0 ..< 600}"
    by (simp add: create_segments_cover probed_duration_given seg_count_725)
  have f: "min (of_int \<lfloor>(725::rat) / 60\<rfloor> * 60) 725 = (720::rat)" by code_simp
  show ?thesis by (simp only: c f) simp
qed

text \<open>
  C8. Every segment either segmenter produces is exactly 60 seconds long (in the analysis
  document the recorded duration is 60 as well), and from 60 seconds on \<open>create_segments\<close>
  produces at least one.
\<close>

theorem segments_full_length:
  "(\<forall>s \<in> set (create_segments video_id probe video_info). seg_end s - seg_start s = 60)
   \<and> (\<forall>s \<in> set (an_segments (create_analysis_json video_id probe' info transcript)).
         as_end s - as_start s = 60 \<and> as_duration s = 60)
   \<and> (60 \<le> probed_duration video_info probe \<longrightarrow> create_segments video_id probe video_info \<noteq> [])"
proof (intro conjI impI ballI)
  fix s assume "s \<in> set (create_segments video_id probe video_info)"
  then show "seg_end s - seg_start s = 60" by (auto simp: create_segments_eq)
next
  fix s assume s: "s \<in> set (an_segments (create_analysis_json video_id probe' info transcript))"
  have "as_end s - as_start s = 60 \<and> as_duration s = 60"
  proof (cases "\<exists>D entries. probe' = Some D \<and> 0 < D \<and> transcript = Some entries \<and> entries \<noteq> []")
    case True
    then obtain D entries where "probe' = Some D" "0 < D" "transcript = Some entries" "entries \<noteq> []"
      by blast
    with s show ?thesis by (auto simp: create_analysis_segments_eq)
  next
    case False
    then have "transcript = None \<or> transcript = Some [] \<or> probe' = None \<or> (\<exists>D. probe' = Some D \<and> D \<le> 0)"
      by (cases transcript; cases probe') (auto simp: not_less)
    then have "an_segments (create_analysis_json video_id probe' info transcript) = []"
      by (rule create_analysis_no_segments)
    with s show ?thesis by simp
  qed
  then show "as_end s - as_start s = 60" and "as_duration s = 60" by simp_all
next
  assume "60 \<le> probed_duration video_info probe"
  then have "1 \<le> probed_duration video_info probe / 60" by simp
  then have "1 \<le> \<lfloor>probed_duration video_info probe / 60\<rfloor>" by (simp add: le_floor_iff)
  then have "0 < seg_count (probed_duration video_info probe)" by (simp add: seg_count_def)
  then show "create_segments video_id probe video_info \<noteq> []"
    using create_segments_length [of video_id probe video_info] by auto
qed

text \<open>
  At 185 seconds both segmenters produce three segments of 60 seconds.
\<close>

theorem segments_full_length_witness:
  "(60::rat) \<le> probed_duration \<lparr>info_title = None, info_description = None, info_duration = Some 185\<rparr> None
   \<and> map (\<lambda>s. seg_end s - seg_start s)
         (create_segments (py ''abc123'') None
            \<lparr>info_title = None, info_description = None, info_duration = Some 185\<rparr>) = [60, 60, 60]
   \<and> map as_duration
         (an_segments (create_analysis_json (py ''abc123'') (Some 185) None
            (Some [\<lparr>entry_start = 0, entry_text = py ''hi''\<rparr>]))) = [60, 60, 60]"
proof -
  let ?vi = "\<lparr>info_title = None, info_description = None, info_duration = Some (185::rat)\<rparr>"
  let ?a = "create_segments (py ''abc123'') None ?vi"
  let ?b = "an_segments (create_analysis_json (py ''abc123'') (Some 185) None
            (Some [\<lparr>entry_start = 0, entry_text = py ''hi''\<rparr>]))"
  note T = segments_full_length [of "py ''abc123''" None ?vi "Some 185" None
      "Some [\<lparr>entry_start = 0, entry_text = py ''hi''\<rparr>]"]
  have c: "map f xs = replicate (length xs) c" if "\<forall>x\<in>set xs. f x = c"
    for f :: "'a \<Rightarrow> rat" and xs c
    using that by (induction xs) simp_all
  have la: "length ?a = 3" by (simp add: create_segments_length probed_duration_given seg_count_185)
  have lb: "length ?b = 3" by (simp add: analysis_segments_length seg_count_185)
  from T have "\<forall>s\<in>set ?a. seg_end s - seg_start s = 60" by blast
  from c [OF this] have A: "map (\<lambda>s. seg_end s - seg_start s) ?a = [60, 60, 60]"
    by (simp add: la numeral_3_eq_3)
  from T have "\<forall>s\<in>set ?b. as_duration s = 60" by blast
  from c [OF this] have B: "map as_duration ?b = [60, 60, 60]"
    by (simp add: lb numeral_3_eq_3)
  from A B show ?thesis by (simp add: probed_duration_given)
qed

lemma dec_digits_small: "n < 10 \<Longrightarrow> dec_digits n = [48 + n]"
  by (subst dec_digits.simps) simp

text \<open>
  A transcript with two entries in the first minute of a two-minute video.
\<close>

theorem segment_descriptions_witness:
  "[\<lparr>entry_start = 0, entry_text = py ''hi''\<rparr>, \<lparr>entry_start = 5, entry_text = py ''there''\<rparr>] \<noteq> []
   \<and> (0::rat) < 120 \<and> seg_count 120 = 2
   \<and> as_description (an_segments (create_analysis_json (py ''abc123'') (Some 120) None
        (Some [\<lparr>entry_start = 0, entry_text = py ''hi''\<rparr>,
               \<lparr>entry_start = 5, entry_text = py ''there''\<rparr>])) ! 0) = py ''hi there''
   \<and> as_description (an_segments (create_analysis_json (py ''abc123'') (Some 120) None
        (Some [\<lparr>entry_start = 0, entry_text = py ''hi''\<rparr>,
               \<lparr>entry_start = 5, entry_text = py ''there''\<rparr>])) ! 1) = py ''Segment 2''
   \<and> length (create_segments (py ''abc123'') None
         \<lparr>info_title = None, info_description = None, info_duration = Some 120\<rparr>) = 2
   \<and> seg_description (create_segments (py ''abc123'') None
         \<lparr>info_title = None, info_description = None, info_duration = Some 120\<rparr> ! 1) = py ''Part 2 of 2''"
proof -
  let ?es = "[\<lparr>entry_start = 0, entry_text = py ''hi''\<rparr>, \<lparr>entry_start = 5, entry_text = py ''there''\<rparr>]"
  let ?segs = "an_segments (create_analysis_json (py ''abc123'') (Some 120) None (Some ?es))"
  let ?vi = "\<lparr>info_title = None, info_description = None, info_duration = Some 120\<rparr>"
  have h: "?es \<noteq> [] \<and> (0::rat) < 120" by simp
  have e: "?es \<noteq> []" and d: "(0::rat) < 120" by simp_all
  have b: "as_start (?segs ! 0) = 0" "as_end (?segs ! 0) = 60"
    "as_start (?segs ! 1) = 60" "as_end (?segs ! 1) = 120"
    using analysis_segments_bounds [OF e d, of 0 "py ''abc123''" None]
      analysis_segments_bounds [OF e d, of 1 "py ''abc123''" None]
    by (simp_all add: seg_count_120)
  have l: "length (create_segments (py ''abc123'') None ?vi) = 2"
    by (simp add: create_segments_length probed_duration_given seg_count_120)
  note T = segment_descriptions [of ?es 120 "py ''abc123''" None None ?vi, unfolded Let_def]
  from T h have A: "\<forall>i < seg_count 120.
             as_description (?segs ! i) =
               (if filter (in_window (as_start (?segs ! i)) (as_end (?segs ! i))) ?es = []
                then py ''Segment '' @ str_int (int i + 1)
                else take 200 (py_strip (space_join (map entry_text
                       (filter (in_window (as_start (?segs ! i)) (as_end (?segs ! i))) ?es)))))"
    by blast
  from T have B: "\<forall>i < length (create_segments (py ''abc123'') None ?vi).
             seg_description (create_segments (py ''abc123'') None ?vi ! i) =
             py ''Part '' @ str_int (int i + 1) @ py '' of ''
             @ str_int (int (length (create_segments (py ''abc123'') None ?vi)))"
    by blast
  have "(0::nat) < seg_count 120" "(1::nat) < seg_count 120" by (simp_all add: seg_count_120)
  note A0 = A [rule_format, OF this(1)] and A1 = A [rule_format, OF this(2)]
  have "(1::nat) < length (create_segments (py ''abc123'') None ?vi)" by (simp add: l)
  note B1 = B [rule_format, OF this]
  have "as_description (?segs ! 0) = py ''hi there''"
    unfolding A0 b by (simp add: in_window_def py_strip_def py_isspace_def py_def)
  moreover have "as_description (?segs ! 1) = py ''Segment 2''"
    unfolding A1 b by (simp add: in_window_def str_int_def dec_digits_small py_def)
  moreover have "seg_description (create_segments (py ''abc123'') None ?vi ! 1) = py ''Part 2 of 2''"
    unfolding B1 l by (simp add: str_int_def dec_digits_small py_def)
  ultimately show ?thesis using h l by (simp add: seg_count_120)
qed

text \<open>
  C7 as stated fails twice: a window in which no entry starts gets the placeholder, not
  the empty concatenation; and a text that begins with a space is stripped.
\<close>

theorem segment_description_counterexample:
  "as_description (an_segments (create_analysis_json (py ''abc123'') (Some 120) None
        (Some [\<lparr>entry_start = 0, entry_text = py '' hi''\<rparr>])) ! 1)
     \<noteq> take 200 (space_join (map entry_text
           (filter (in_window 60 120) [\<lparr>entry_start = 0, entry_text = py '' hi''\<rparr>])))
   \<and> as_description (an_segments (create_analysis_json (py ''abc123'') (Some 120) None
        (Some [\<lparr>entry_start = 0, entry_text = py '' hi''\<rparr>])) ! 0)
     \<noteq> take 200 (space_join (map entry_text
           (filter (in_window 0 60) [\<lparr>entry_start = 0, entry_text = py '' hi''\<rparr>])))"
proof -
  let ?es = "[\<lparr>entry_start = 0, entry_text = py '' hi''\<rparr>]"
  have e: "?es \<noteq> []" and d: "(0::rat) < 120" by simp_all
  have "as_description (an_segments (create_analysis_json (py ''abc123'') (Some 120) None (Some ?es)) ! 1)
        = py ''Segment 2''"
    unfolding create_analysis_segments_eq [OF e d] seg_count_120
    by (simp add: segment_text_of_def str_int_def dec_digits_small py_def)
  moreover have "as_description (an_segments (create_analysis_json (py ''abc123'') (Some 120) None (Some ?es)) ! 0)
        = py ''hi''"
    unfolding create_analysis_segments_eq [OF e d] seg_count_120
    by (simp add: segment_text_of_def py_strip_def py_isspace_def py_def)
  ultimately show ?thesis by (simp add: in_window_def py_def)
qed

lemma main_no_clips:
  "(\<forall>p. \<not> w_cut w p) \<Longrightarrow> exit_code (main isalnum w) = 1 \<and> published (main isalnum w) = None"
  by (simp add: main_def Let_def split: option.splits)

lemma main_no_segments:
  "create_segments (env_value (env_VIDEO_ID (w_env w))) (w_probe w)
     (get_video_info (env_value (env_VIDEO_ID (w_env w))) (w_info_file w)) = [] \<Longrightarrow>
   exit_code (main isalnum w) = 1 \<and> published (main isalnum w) = None"
  by (simp add: main_def Let_def split: option.splits)

lemma probed_duration_fallback:
  "info_duration video_info = Some 0 \<or> info_duration video_info = None \<Longrightarrow>
   probed_duration video_info None = 60"
  by (auto simp: probed_duration_def)

lemma seg_count_60: "seg_count 60 = 1" by code_simp
lemma seg_count_0: "seg_count 0 = 0" by code_simp

text \<open>
  C4, as the code has it. A duration of 0 gives no segment. When the information file has
  no duration and the probe fails, \<open>create_segments\<close> goes on with 60 seconds and produces
  the one segment \<open>[0, 60)\<close>; \<open>create_analysis_json\<close> takes 0 and produces none. A run in
  which no clip is cut, in particular one with no segment, exits with code 1 without
  reaching the publishing step.
\<close>

theorem zero_duration_no_segments:
  "(probed_duration video_info probe = 0 \<longrightarrow> create_segments video_id probe video_info = [])
   \<and> (info_duration video_info = Some 0 \<or> info_duration video_info = None \<longrightarrow>
        length (create_segments video_id None video_info) = 1
        \<and> seg_start (create_segments video_id None video_info ! 0) = 0
        \<and> seg_end (create_segments video_id None video_info ! 0) = 60)
   \<and> an_segments (create_analysis_json video_id None info transcript) = []
   \<and> an_segments (create_analysis_json video_id (Some 0) info transcript) = []
   \<and> ((\<forall>p. \<not> w_cut w p) \<longrightarrow> exit_code (main isalnum w) = 1 \<and> published (main isalnum w) = None)
   \<and> (create_segments (env_value (env_VIDEO_ID (w_env w))) (w_probe w)
         (get_video_info (env_value (env_VIDEO_ID (w_env w))) (w_info_file w)) = [] \<longrightarrow>
       exit_code (main isalnum w) = 1 \<and> published (main isalnum w) = None)"
proof (intro conjI impI)
  assume "probed_duration video_info probe = 0"
  then have "length (create_segments video_id probe video_info) = 0"
    by (simp add: create_segments_length seg_count_0)
  then show "create_segments video_id probe video_info = []" by simp
next
  assume "info_duration video_info = Some 0 \<or> info_duration video_info = None"
  then have p: "probed_duration video_info None = 60" by (rule probed_duration_fallback)
  show "length (create_segments video_id None video_info) = 1"
    by (simp add: create_segments_length p seg_count_60)
  show "seg_start (create_segments video_id None video_info ! 0) = 0"
    using create_segments_bounds(1) [of 0 video_info None video_id] by (simp add: p seg_count_60)
  show "seg_end (create_segments video_id None video_info ! 0) = 60"
    using create_segments_bounds(2) [of 0 video_info None video_id] by (simp add: p seg_count_60)
next
  show "an_segments (create_analysis_json video_id None info transcript) = []"
    by (rule create_analysis_no_segments) simp
  show "an_segments (create_analysis_json video_id (Some 0) info transcript) = []"
    by (rule create_analysis_no_segments) simp
next
  assume "\<forall>p. \<not> w_cut w p"
  then show "exit_code (main isalnum w) = 1" "published (main isalnum w) = None"
    using main_no_clips by blast+
next
  assume "create_segments (env_value (env_VIDEO_ID (w_env w))) (w_probe w)
         (get_video_info (env_value (env_VIDEO_ID (w_env w))) (w_info_file w)) = []"
  then show "exit_code (main isalnum w) = 1" "published (main isalnum w) = None"
    using main_no_segments by blast+
qed

text \<open>
  C4 as stated fails when the probe fails: duration 0 in the information file and no
  probe result still give a segment.
\<close>

theorem probe_failure_counterexample:
  "probed_duration \<lparr>info_title = None, info_description = None, info_duration = Some 0\<rparr> None \<noteq> 0
   \<and> create_segments (py ''abc123'') None
        \<lparr>info_title = None, info_description = None, info_duration = Some 0\<rparr> \<noteq> []"
proof -
  have "length (create_segments (py ''abc123'') None
        \<lparr>info_title = None, info_description = None, info_duration = Some 0\<rparr>) = 1"
    by (simp add: create_segments_length probed_duration_def seg_count_60)
  then show ?thesis by (auto simp: probed_duration_def)
qed

text \<open>
  A run whose probe reports 0 seconds: no segment, exit code 1, nothing published.
\<close>

theorem zero_duration_no_segments_witness:
  "probed_duration \<lparr>info_title = None, info_description = None, info_duration = Some 0\<rparr> (Some 0) = 0
   \<and> create_segments (py ''abc123'') (Some 0)
        \<lparr>info_title = None, info_description = None, info_duration = Some 0\<rparr> = []
   \<and> exit_code (main (\<lambda>c. True)
        \<lparr>w_env = \<lparr>env_VIDEO_ID = Some (py ''abc123''), env_R2_SHORTS_ACCESS_KEY = Some (py ''k''),
                  env_R2_SHORTS_SECRET_KEY = Some (py ''s''), env_R2_SHORTS_ENDPOINT = Some (py ''e''),
                  env_R2_SHORTS_BUCKET = Some (py ''b''), env_R2_SHORTS_PUBLIC_URL = Some (py ''u''),
                  env_DATABASE_URL = Some (py ''postgresql://h/d'')\<rparr>,
         w_download = Some (py ''downloads/abc123.mp4''), w_info_file = None, w_probe = Some 0,
         w_cut = (\<lambda>p. True), w_db_connects = True, w_db = Map.empty, w_shorts_dir = [],
         w_io = (\<lambda>f. AllSucceed), w_clock = (\<lambda>f. 0)\<rparr>) = 1
   \<and> published (main (\<lambda>c. True)
        \<lparr>w_env = \<lparr>env_VIDEO_ID = Some (py ''abc123''), env_R2_SHORTS_ACCESS_KEY = Some (py ''k''),
                  env_R2_SHORTS_SECRET_KEY = Some (py ''s''), env_R2_SHORTS_ENDPOINT = Some (py ''e''),
                  env_R2_SHORTS_BUCKET = Some (py ''b''), env_R2_SHORTS_PUBLIC_URL = Some (py ''u''),
                  env_DATABASE_URL = Some (py ''postgresql://h/d'')\<rparr>,
         w_download = Some (py ''downloads/abc123.mp4''), w_info_file = None, w_probe = Some 0,
         w_cut = (\<lambda>p. True), w_db_connects = True, w_db = Map.empty, w_shorts_dir = [],
         w_io = (\<lambda>f. AllSucceed), w_clock = (\<lambda>f. 0)\<rparr>) = None"
proof -
  let ?vi = "\<lparr>info_title = None, info_description = None, info_duration = Some (0::rat)\<rparr>"
  let ?W = "\<lparr>w_env = \<lparr>env_VIDEO_ID = Some (py ''abc123''), env_R2_SHORTS_ACCESS_KEY = Some (py ''k''),
                  env_R2_SHORTS_SECRET_KEY = Some (py ''s''), env_R2_SHORTS_ENDPOINT = Some (py ''e''),
                  env_R2_SHORTS_BUCKET = Some (py ''b''), env_R2_SHORTS_PUBLIC_URL = Some (py ''u''),
                  env_DATABASE_URL = Some (py ''postgresql://h/d'')\<rparr>,
         w_download = Some (py ''downloads/abc123.mp4''), w_info_file = None, w_probe = Some (0::rat),
         w_cut = (\<lambda>p. True), w_db_connects = True, w_db = Map.empty, w_shorts_dir = [],
         w_io = (\<lambda>f. AllSucceed), w_clock = (\<lambda>f. 0)\<rparr>"
  have p: "probed_duration ?vi (Some 0) = 0" by (simp add: probed_duration_def)
  have q: "probed_duration (get_video_info (py ''abc123'') None) (Some 0) = 0"
    by (simp add: probed_duration_def get_video_info_def)
  have s: "create_segments (env_value (env_VIDEO_ID (w_env ?W))) (w_probe ?W)
         (get_video_info (env_value (env_VIDEO_ID (w_env ?W))) (w_info_file ?W)) = []"
    using create_segments_length [of "py ''abc123''" "Some 0" "get_video_info (py ''abc123'') None"]
    by (simp add: q seg_count_0 env_value_def)
  note T = zero_duration_no_segments [where video_info = ?vi and probe = "Some 0"
      and video_id = "py ''abc123''" and w = ?W and isalnum = "\<lambda>c. True"]
  from T p have "create_segments (py ''abc123'') (Some 0) ?vi = []" by blast
  moreover from T s have "exit_code (main (\<lambda>c. True) ?W) = 1 \<and> published (main (\<lambda>c. True) ?W) = None"
    by blast
  ultimately show ?thesis using p by blast
qed

section \<open>The upload script\<close>

lemma upload_one_head_client_error:
  assumes "io filename = HeadClientError"
  shows "upload_one VIDEO_ID R2_PUBLIC_URL io clock filename st =
           st\<lparr>upload_calls := upload_calls st @ [VIDEO_ID @ py ''/'' @ filename],
              success_count := success_count st + 1\<rparr>"
  using assms by (simp add: upload_one_def Let_def)

lemma upload_all_Cons:
  "upload_all VIDEO_ID R2_PUBLIC_URL io clock (f # fs) st =
     upload_all VIDEO_ID R2_PUBLIC_URL io clock fs (upload_one VIDEO_ID R2_PUBLIC_URL io clock f st)"
  by (simp add: upload_all_def)

lemma upload_all_Nil: "upload_all VIDEO_ID R2_PUBLIC_URL io clock [] st = st"
  by (simp add: upload_all_def)

lemma upload_all_head_client_error:
  assumes "\<forall>f \<in> set shorts_files. io f = HeadClientError"
  shows "success_count (upload_all VIDEO_ID R2_PUBLIC_URL io clock shorts_files st)
           = success_count st + length shorts_files
       \<and> failed_count (upload_all VIDEO_ID R2_PUBLIC_URL io clock shorts_files st) = failed_count st
       \<and> u_session (upload_all VIDEO_ID R2_PUBLIC_URL io clock shorts_files st) = u_session st"
  using assms
proof (induction shorts_files arbitrary: st)
  case Nil
  then show ?case by (simp add: upload_all_Nil)
next
  case (Cons f fs)
  then have f: "io f = HeadClientError" and fs: "\<forall>g \<in> set fs. io g = HeadClientError" by simp_all
  show ?case
    unfolding upload_all_Cons upload_one_head_client_error [where io = io and filename = f, OF f]
    using Cons.IH [OF fs] by simp
qed

text \<open>
  C9. In \<open>upload_shorts_to_r2.py\<close>, when \<open>head_object\<close> raises a \<open>ClientError\<close> the file
  is counted as a success and the session is left as it was: nothing is inserted, updated
  or committed for it. A batch in which this happens for every file ends with as many
  successes as files and an unchanged database.
\<close>

theorem unverified_upload_counts_as_success:
  "(io filename = HeadClientError \<longrightarrow>
      (let st' = upload_one VIDEO_ID R2_PUBLIC_URL io clock filename st
       in success_count st' = success_count st + 1 \<and> failed_count st' = failed_count st
          \<and> u_session st' = u_session st))
   \<and> ((\<forall>f \<in> set shorts_files. io f = HeadClientError) \<longrightarrow>
      (let st' = upload_all VIDEO_ID R2_PUBLIC_URL io clock shorts_files st
       in success_count st' = success_count st + length shorts_files
          \<and> failed_count st' = failed_count st \<and> u_session st' = u_session st))"
  by (simp add: Let_def upload_one_head_client_error upload_all_head_client_error)

lemma upload_one_rollbacks:
  "rollbacks (u_session (upload_one VIDEO_ID R2_PUBLIC_URL io clock filename st)) = rollbacks (u_session st)"
  by (cases "io filename")
     (simp_all add: upload_one_def Let_def session_write_def session_commit_def)

lemma upload_all_rollbacks:
  "rollbacks (u_session (upload_all VIDEO_ID R2_PUBLIC_URL io clock shorts_files st)) = rollbacks (u_session st)"
  by (induction shorts_files arbitrary: st) (simp_all add: upload_all_Cons upload_all_Nil upload_one_rollbacks)

lemma short_id_example: "short_id (py ''vid_1.mp4'') = py ''vid_1''"
  by (simp add: short_id_def py_def)

lemma url_checks:
  "\<not> sublist (py ''localhost'') (py ''postgresql://h/d'')"
  "\<not> sublist (py ''127.0.0.1'') (py ''postgresql://h/d'')"
  "\<not> sublist (py ''/var/run/postgresql'') (py ''postgresql://h/d'')"
  "prefix (py ''postgresql'') (py ''postgresql://h/d'')"
  by code_simp+

lemma name_checks:
  "prefix (py ''vid'') (py ''vid_1.mp4'')" "suffix (py ''.mp4'') (py ''vid_1.mp4'')"
  "suffix (py ''.mp4'') (py ''vid_2.mp4'')"
  by code_simp+

text \<open>
  A run of the whole script on one file whose verification fails: exit code 0, one
  success, and no row for the clip.
\<close>

theorem unverified_upload_counts_as_success_witness:
  "u_exit_code (upload_shorts_to_r2
     \<lparr>uw_env = \<lparr>uenv_R2_ACCESS_KEY = Some (py ''k''), uenv_R2_SECRET_KEY = Some (py ''s''),
                 uenv_R2_ENDPOINT = Some (py ''e''), uenv_R2_BUCKET = Some (py ''b''),
                 uenv_R2_PUBLIC_URL = Some (py ''https://cdn''), uenv_VIDEO_ID = Some (py ''vid''),
                 uenv_DATABASE_URL = Some (py ''postgresql://h/d'')\<rparr>,
      uw_client_created = True, uw_db_connects = True, uw_db = Map.empty,
      uw_shorts_dir = Some [py ''vid_1.mp4''], uw_io = (\<lambda>f. HeadClientError),
      uw_clock = (\<lambda>f. 0)\<rparr>) = 0
   \<and> map_option success_count (u_final (upload_shorts_to_r2
     \<lparr>uw_env = \<lparr>uenv_R2_ACCESS_KEY = Some (py ''k''), uenv_R2_SECRET_KEY = Some (py ''s''),
                 uenv_R2_ENDPOINT = Some (py ''e''), uenv_R2_BUCKET = Some (py ''b''),
                 uenv_R2_PUBLIC_URL = Some (py ''https://cdn''), uenv_VIDEO_ID = Some (py ''vid''),
                 uenv_DATABASE_URL = Some (py ''postgresql://h/d'')\<rparr>,
      uw_client_created = True, uw_db_connects = True, uw_db = Map.empty,
      uw_shorts_dir = Some [py ''vid_1.mp4''], uw_io = (\<lambda>f. HeadClientError),
      uw_clock = (\<lambda>f. 0)\<rparr>)) = Some 1
   \<and> map_option (\<lambda>st. committed (u_session st) (py ''vid_1'')) (u_final (upload_shorts_to_r2
     \<lparr>uw_env = \<lparr>uenv_R2_ACCESS_KEY = Some (py ''k''), uenv_R2_SECRET_KEY = Some (py ''s''),
                 uenv_R2_ENDPOINT = Some (py ''e''), uenv_R2_BUCKET = Some (py ''b''),
                 uenv_R2_PUBLIC_URL = Some (py ''https://cdn''), uenv_VIDEO_ID = Some (py ''vid''),
                 uenv_DATABASE_URL = Some (py ''postgresql://h/d'')\<rparr>,
      uw_client_created = True, uw_db_connects = True, uw_db = Map.empty,
      uw_shorts_dir = Some [py ''vid_1.mp4''], uw_io = (\<lambda>f. HeadClientError),
      uw_clock = (\<lambda>f. 0)\<rparr>)) = Some None"
proof -
  let ?W = "\<lparr>uw_env = \<lparr>uenv_R2_ACCESS_KEY = Some (py ''k''), uenv_R2_SECRET_KEY = Some (py ''s''),
                 uenv_R2_ENDPOINT = Some (py ''e''), uenv_R2_BUCKET = Some (py ''b''),
                 uenv_R2_PUBLIC_URL = Some (py ''https://cdn''), uenv_VIDEO_ID = Some (py ''vid''),
                 uenv_DATABASE_URL = Some (py ''postgresql://h/d'')\<rparr>,
      uw_client_created = True, uw_db_connects = True, uw_db = Map.empty,
      uw_shorts_dir = Some [py ''vid_1.mp4''], uw_io = (\<lambda>f. HeadClientError),
      uw_clock = (\<lambda>f. 0::nat)\<rparr>"
  let ?init = "\<lparr>u_session = new_session Map.empty, upload_calls = [], success_count = 0,
               failed_count = 0\<rparr>"
  let ?st = "upload_all (py ''vid'') (py ''https://cdn'') (\<lambda>f. HeadClientError) (\<lambda>f. 0::nat)
               [py ''vid_1.mp4''] ?init"
  have ne: "py s \<noteq> []" if "s \<noteq> []" for s using that by (simp add: py_def)
  have E: "upload_shorts_to_r2 ?W =
             \<lparr>u_exit_code = (if success_count ?st = 0 then 1 else 0), u_final = Some ?st\<rparr>"
    by (simp add: upload_shorts_to_r2_def Let_def truthy_def env_value_def url_checks name_checks ne)
  have h: "\<forall>f \<in> set [py ''vid_1.mp4'']. (\<lambda>f. HeadClientError) f = HeadClientError" by simp
  from unverified_upload_counts_as_success [where io = "\<lambda>f. HeadClientError"
      and shorts_files = "[py ''vid_1.mp4'']" and VIDEO_ID = "py ''vid''"
      and R2_PUBLIC_URL = "py ''https://cdn''" and clock = "\<lambda>f. 0" and st = ?init
      and filename = "py ''vid_1.mp4''"] h
  have "success_count ?st = 1 \<and> u_session ?st = new_session Map.empty"
    unfolding Let_def by simp
  then show ?thesis unfolding E by (simp add: new_session_def)
qed

text \<open>
  C3, where the code departs from it. \<open>upload_shorts_to_r2.py\<close> never calls
  \<open>session.rollback()\<close>, whatever happens. With one file whose commit raises, the file is
  counted as failed, and the row stays pending in the session: the session sees it, the
  database does not. \<open>upload_shorts_to_r2_and_db\<close> at the same input rolls back: one
  rollback, nothing pending, and the loop goes on to its end.
\<close>

theorem commit_failure_without_rollback:
  "rollbacks (u_session (upload_all VIDEO_ID R2_PUBLIC_URL io clock shorts_files st))
     = rollbacks (u_session st)
   \<and> (let st' = upload_all (py ''vid'') (py ''https://cdn'') (\<lambda>f. CommitError) (\<lambda>f. 0)
                  [py ''vid_1.mp4'']
                  \<lparr>u_session = new_session Map.empty, upload_calls = [], success_count = 0,
                   failed_count = 0\<rparr>
       in failed_count st' = 1 \<and> success_count st' = 0 \<and> rollbacks (u_session st') = 0
          \<and> committed (u_session st') (py ''vid_1'') = None
          \<and> working (u_session st') (py ''vid_1'') \<noteq> None)
   \<and> (let r = publish_loop r2_config video_info (\<lambda>f. CommitRaises) (\<lambda>f. 0) [py ''vid_1.mp4'']
                 \<lparr>session = new_session Map.empty, put_calls = [], uploaded = 0\<rparr>
       in \<not> fst r \<and> uploaded (snd r) = 0 \<and> rollbacks (session (snd r)) = 1
          \<and> committed (session (snd r)) (py ''vid_1'') = None
          \<and> working (session (snd r)) (py ''vid_1'') = None)"
proof (intro conjI)
  show "rollbacks (u_session (upload_all VIDEO_ID R2_PUBLIC_URL io clock shorts_files st))
     = rollbacks (u_session st)" by (rule upload_all_rollbacks)
next
  show "let st' = upload_all (py ''vid'') (py ''https://cdn'') (\<lambda>f. CommitError) (\<lambda>f. 0)
                  [py ''vid_1.mp4'']
                  \<lparr>u_session = new_session Map.empty, upload_calls = [], success_count = 0,
                   failed_count = 0\<rparr>
       in failed_count st' = 1 \<and> success_count st' = 0 \<and> rollbacks (u_session st') = 0
          \<and> committed (u_session st') (py ''vid_1'') = None
          \<and> working (u_session st') (py ''vid_1'') \<noteq> None"
    by (simp add: Let_def upload_all_def upload_one_def new_session_def session_write_def
        short_id_example)
next
  show "let r = publish_loop r2_config video_info (\<lambda>f. CommitRaises) (\<lambda>f. 0) [py ''vid_1.mp4'']
                 \<lparr>session = new_session Map.empty, put_calls = [], uploaded = 0\<rparr>
       in \<not> fst r \<and> uploaded (snd r) = 0 \<and> rollbacks (session (snd r)) = 1
          \<and> committed (session (snd r)) (py ''vid_1'') = None
          \<and> working (session (snd r)) (py ''vid_1'') = None"
    by (simp add: Let_def publish_short_def new_session_def session_write_def session_rollback_def
        short_id_example split: option.splits)
qed

lemma upload_one_calls:
  "upload_calls (upload_one VIDEO_ID R2_PUBLIC_URL io clock f st)
     = upload_calls st @ [VIDEO_ID @ py ''/'' @ f]"
  by (cases "io f") (simp_all add: upload_one_def Let_def)

lemma upload_all_calls:
  "upload_calls (upload_all VIDEO_ID R2_PUBLIC_URL io clock fs st)
     = upload_calls st @ map (\<lambda>f. VIDEO_ID @ py ''/'' @ f) fs"
  by (induction fs arbitrary: st) (simp_all add: upload_all_Cons upload_all_Nil upload_one_calls)

lemma upload_one_working:
  assumes "working (u_session (upload_one VIDEO_ID R2_PUBLIC_URL io clock f st)) k = Some r"
  shows "working (u_session st) k = Some r
         \<or> (short_id f = k \<and> v_r2_url r = Some (R2_PUBLIC_URL @ py ''/videos/'' @ f)
             \<and> v_r2_key r = Some (VIDEO_ID @ py ''/'' @ f))"
  using assms
  by (cases "io f")
     (auto simp: upload_one_def Let_def session_write_def session_commit_def
           split: if_splits option.splits)

lemma upload_one_committed:
  assumes "committed (u_session (upload_one VIDEO_ID R2_PUBLIC_URL io clock f st)) k = Some r"
  shows "committed (u_session st) k = Some r
         \<or> working (u_session (upload_one VIDEO_ID R2_PUBLIC_URL io clock f st)) k = Some r"
  using assms
  by (cases "io f")
     (auto simp: upload_one_def Let_def session_write_def session_commit_def
           split: if_splits option.splits)

lemma upload_all_working:
  assumes "working (u_session (upload_all VIDEO_ID R2_PUBLIC_URL io clock fs st)) k = Some r"
  shows "working (u_session st) k = Some r
         \<or> (\<exists>f\<in>set fs. short_id f = k \<and> v_r2_url r = Some (R2_PUBLIC_URL @ py ''/videos/'' @ f)
             \<and> v_r2_key r = Some (VIDEO_ID @ py ''/'' @ f))"
  using assms
proof (induction fs arbitrary: st)
  case Nil
  then show ?case by (simp add: upload_all_Nil)
next
  case (Cons f fs)
  from Cons.prems have "working (u_session (upload_all VIDEO_ID R2_PUBLIC_URL io clock fs
      (upload_one VIDEO_ID R2_PUBLIC_URL io clock f st))) k = Some r"
    by (simp only: upload_all_Cons)
  from Cons.IH [OF this] show ?case
    using upload_one_working [of VIDEO_ID R2_PUBLIC_URL io clock f st k r] by auto
qed

lemma upload_all_committed:
  assumes "committed (u_session (upload_all VIDEO_ID R2_PUBLIC_URL io clock fs st)) k = Some r"
  shows "committed (u_session st) k = Some r \<or> working (u_session st) k = Some r
         \<or> (\<exists>f\<in>set fs. short_id f = k \<and> v_r2_url r = Some (R2_PUBLIC_URL @ py ''/videos/'' @ f)
             \<and> v_r2_key r = Some (VIDEO_ID @ py ''/'' @ f))"
  using assms
proof (induction fs arbitrary: st)
  case Nil
  then show ?case by (simp add: upload_all_Nil)
next
  case (Cons f fs)
  let ?s1 = "upload_one VIDEO_ID R2_PUBLIC_URL io clock f st"
  from Cons.prems have "committed (u_session (upload_all VIDEO_ID R2_PUBLIC_URL io clock fs ?s1)) k = Some r"
    by (simp only: upload_all_Cons)
  from Cons.IH [OF this] show ?case
    using upload_one_working [of VIDEO_ID R2_PUBLIC_URL io clock f st k r]
      upload_one_committed [of VIDEO_ID R2_PUBLIC_URL io clock f st k r] by auto
qed

lemma url_is_key_iff:
  "R2_PUBLIC_URL @ py ''/videos/'' @ f = R2_PUBLIC_URL @ py ''/'' @ VIDEO_ID @ py ''/'' @ f
     \<longleftrightarrow> VIDEO_ID = py ''videos''"
proof -
  have "R2_PUBLIC_URL @ py ''/videos/'' @ f = R2_PUBLIC_URL @ py ''/'' @ VIDEO_ID @ py ''/'' @ f
        \<longleftrightarrow> (py ''videos'' @ [47]) @ f = (VIDEO_ID @ [47]) @ f"
    by (simp add: py_def)
  also have "\<dots> \<longleftrightarrow> py ''videos'' @ [47] = VIDEO_ID @ [47]" by (rule append_same_eq)
  also have "\<dots> \<longleftrightarrow> VIDEO_ID = py ''videos''" by (simp only: append1_eq_conv) auto
  finally show ?thesis .
qed

text \<open>
  C10, as the code has it. \<open>upload_shorts_to_r2.py\<close> uploads every file under the key
  \<open>{VIDEO_ID}/{filename}\<close>, and every row it leaves in the database that was not there
  before has the URL \<open>{R2_PUBLIC_URL}/videos/{filename}\<close> and that key, for one of the files
  of the batch. The URL is the public URL followed by the key exactly when \<open>VIDEO_ID\<close> is
  the string \<open>videos\<close>.
\<close>

theorem recorded_url_and_key:
  "(let st = upload_all VIDEO_ID R2_PUBLIC_URL io clock shorts_files
               \<lparr>u_session = new_session db, upload_calls = [], success_count = 0,
                failed_count = 0\<rparr>
    in upload_calls st = map (\<lambda>f. VIDEO_ID @ py ''/'' @ f) shorts_files \<and>
       (\<forall>k r. committed (u_session st) k = Some r \<and> db k \<noteq> Some r \<longrightarrow>
          (\<exists>f\<in>set shorts_files.
             short_id f = k
             \<and> v_r2_url r = Some (R2_PUBLIC_URL @ py ''/videos/'' @ f)
             \<and> v_r2_key r = Some (VIDEO_ID @ py ''/'' @ f)
             \<and> (v_r2_url r = Some (R2_PUBLIC_URL @ py ''/'' @ VIDEO_ID @ py ''/'' @ f)
                  \<longleftrightarrow> VIDEO_ID = py ''videos''))))"
proof -
  let ?init = "\<lparr>u_session = new_session db, upload_calls = [], success_count = 0, failed_count = 0\<rparr>"
  let ?fin = "upload_all VIDEO_ID R2_PUBLIC_URL io clock shorts_files ?init"
  have c: "upload_calls ?fin = map (\<lambda>f. VIDEO_ID @ py ''/'' @ f) shorts_files"
    by (simp add: upload_all_calls)
  have w: "\<exists>f\<in>set shorts_files.
             short_id f = k
             \<and> v_r2_url r = Some (R2_PUBLIC_URL @ py ''/videos/'' @ f)
             \<and> v_r2_key r = Some (VIDEO_ID @ py ''/'' @ f)
             \<and> (v_r2_url r = Some (R2_PUBLIC_URL @ py ''/'' @ VIDEO_ID @ py ''/'' @ f)
                  \<longleftrightarrow> VIDEO_ID = py ''videos'')"
    if "committed (u_session ?fin) k = Some r" and "db k \<noteq> Some r" for k r
  proof -
    from upload_all_committed [OF that(1)] that(2)
    obtain f where f: "f \<in> set shorts_files" "short_id f = k"
      "v_r2_url r = Some (R2_PUBLIC_URL @ py ''/videos/'' @ f)"
      "v_r2_key r = Some (VIDEO_ID @ py ''/'' @ f)"
      by (auto simp: new_session_def)
    have "v_r2_url r = Some (R2_PUBLIC_URL @ py ''/'' @ VIDEO_ID @ py ''/'' @ f)
                  \<longleftrightarrow> VIDEO_ID = py ''videos''"
      by (simp only: f(3) option.inject url_is_key_iff)
    with f show ?thesis by blast
  qed
  from c w show ?thesis unfolding Let_def by blast
qed

lemma short_id_videos: "short_id (py ''videos_1.mp4'') = py ''videos_1''"
  by (simp add: short_id_def py_def)

lemma short_id_vid_2: "short_id (py ''vid_2.mp4'') = py ''vid_2''"
  by (simp add: short_id_def py_def)

text \<open>
  One file of the video \<open>vid\<close>: uploaded as \<open>vid/vid_1.mp4\<close>, recorded with the URL
  \<open>https://cdn/videos/vid_1.mp4\<close>.
\<close>

theorem recorded_url_and_key_witness:
  "upload_calls (upload_all (py ''vid'') (py ''https://cdn'') (\<lambda>f. Succeeds) (\<lambda>f. 0)
       [py ''vid_1.mp4'']
       \<lparr>u_session = new_session Map.empty, upload_calls = [], success_count = 0,
        failed_count = 0\<rparr>) = [py ''vid/vid_1.mp4'']
   \<and> map_option v_r2_url (committed (u_session (upload_all (py ''vid'') (py ''https://cdn'')
       (\<lambda>f. Succeeds) (\<lambda>f. 0) [py ''vid_1.mp4'']
       \<lparr>u_session = new_session Map.empty, upload_calls = [], success_count = 0,
        failed_count = 0\<rparr>)) (py ''vid_1'')) = Some (Some (py ''https://cdn/videos/vid_1.mp4''))
   \<and> map_option v_r2_key (committed (u_session (upload_all (py ''vid'') (py ''https://cdn'')
       (\<lambda>f. Succeeds) (\<lambda>f. 0) [py ''vid_1.mp4'']
       \<lparr>u_session = new_session Map.empty, upload_calls = [], success_count = 0,
        failed_count = 0\<rparr>)) (py ''vid_1'')) = Some (Some (py ''vid/vid_1.mp4''))
   \<and> map_option v_r2_url (committed (u_session (upload_all (py ''vid'') (py ''https://cdn'')
       (\<lambda>f. Succeeds) (\<lambda>f. 0) [py ''vid_1.mp4'']
       \<lparr>u_session = new_session Map.empty, upload_calls = [], success_count = 0,
        failed_count = 0\<rparr>)) (py ''vid_1'')) \<noteq> Some (Some (py ''https://cdn/vid/vid_1.mp4''))"
proof -
  let ?fin = "upload_all (py ''vid'') (py ''https://cdn'') (\<lambda>f. Succeeds) (\<lambda>f. 0::nat)
       [py ''vid_1.mp4'']
       \<lparr>u_session = new_session Map.empty, upload_calls = [], success_count = 0,
        failed_count = 0\<rparr>"
  note T = recorded_url_and_key [where VIDEO_ID = "py ''vid''" and R2_PUBLIC_URL = "py ''https://cdn''"
      and io = "\<lambda>f. Succeeds" and clock = "\<lambda>f. 0" and shorts_files = "[py ''vid_1.mp4'']"
      and db = Map.empty, unfolded Let_def]
  have "committed (u_session ?fin) (py ''vid_1'') \<noteq> None"
    by (simp add: upload_all_def upload_one_def Let_def new_session_def session_write_def
        session_commit_def short_id_example)
  then obtain r where r: "committed (u_session ?fin) (py ''vid_1'') = Some r" by blast
  moreover have "Map.empty (py ''vid_1'') \<noteq> Some r" by simp
  ultimately have "\<exists>f\<in>set [py ''vid_1.mp4''].
             short_id f = py ''vid_1''
             \<and> v_r2_url r = Some (py ''https://cdn'' @ py ''/videos/'' @ f)
             \<and> v_r2_key r = Some (py ''vid'' @ py ''/'' @ f)
             \<and> (v_r2_url r = Some (py ''https://cdn'' @ py ''/'' @ py ''vid'' @ py ''/'' @ f)
                  \<longleftrightarrow> py ''vid'' = py ''videos'')"
    using T by blast
  then have u: "v_r2_url r = Some (py ''https://cdn'' @ py ''/videos/'' @ py ''vid_1.mp4'')"
    and k: "v_r2_key r = Some (py ''vid'' @ py ''/'' @ py ''vid_1.mp4'')"
    and n: "v_r2_url r \<noteq> Some (py ''https://cdn'' @ py ''/'' @ py ''vid'' @ py ''/'' @ py ''vid_1.mp4'')"
    by (simp_all add: py_def)
  from T have c: "upload_calls ?fin = [py ''vid'' @ py ''/'' @ py ''vid_1.mp4'']" by simp
  from u k n c show ?thesis unfolding r by (simp add: py_def)
qed

text \<open>
  C10 as stated ("never") fails for the identifier \<open>videos\<close>: the recorded URL is the
  public URL followed by the key of the upload.
\<close>

theorem recorded_url_and_key_counterexample:
  "upload_calls (upload_all (py ''videos'') (py ''https://cdn'') (\<lambda>f. Succeeds) (\<lambda>f. 0)
       [py ''videos_1.mp4'']
       \<lparr>u_session = new_session Map.empty, upload_calls = [], success_count = 0,
        failed_count = 0\<rparr>) = [py ''videos/videos_1.mp4'']
   \<and> map_option v_r2_key (committed (u_session (upload_all (py ''videos'') (py ''https://cdn'')
       (\<lambda>f. Succeeds) (\<lambda>f. 0) [py ''videos_1.mp4'']
       \<lparr>u_session = new_session Map.empty, upload_calls = [], success_count = 0,
        failed_count = 0\<rparr>)) (py ''videos_1'')) = Some (Some (py ''videos/videos_1.mp4''))
   \<and> map_option v_r2_url (committed (u_session (upload_all (py ''videos'') (py ''https://cdn'')
       (\<lambda>f. Succeeds) (\<lambda>f. 0) [py ''videos_1.mp4'']
       \<lparr>u_session = new_session Map.empty, upload_calls = [], success_count = 0,
        failed_count = 0\<rparr>)) (py ''videos_1''))
       = Some (Some (py ''https://cdn'' @ py ''/'' @ py ''videos/videos_1.mp4''))"
  by (simp add: upload_all_def upload_one_def Let_def new_session_def session_write_def
      session_commit_def short_id_videos) (simp add: py_def)

section \<open>The publisher of the workflow\<close>

lemma publish_short_skip:
  assumes "working (session st) (short_id g) = Some e" and "truthy (v_r2_url e)"
  shows "publish_short r2_config video_info io clock g st = st"
  using assms by (simp add: publish_short_def Let_def)

lemma publish_short_other_row:
  assumes "short_id g \<noteq> k"
    and "working (session st) k = committed (session st) k"
  shows "working (session (publish_short r2_config video_info io clock g st)) k = working (session st) k
       \<and> committed (session (publish_short r2_config video_info io clock g st)) k = committed (session st) k"
  using assms
  by (auto simp: publish_short_def Let_def session_write_def session_commit_def session_rollback_def
      split: option.splits)

lemma publish_short_other_calls:
  assumes "g \<noteq> f" and "py ''videos/'' @ f \<notin> set (put_calls st)"
  shows "py ''videos/'' @ f \<notin> set (put_calls (publish_short r2_config video_info io clock g st))"
  using assms
  by (auto simp: publish_short_def Let_def split: option.splits)

lemma publish_short_keeps:
  assumes w: "working (session st) (short_id f) = Some e"
    and c: "committed (session st) (short_id f) = Some e"
    and t: "truthy (v_r2_url e)"
    and p: "py ''videos/'' @ f \<notin> set (put_calls st)"
  shows "working (session (publish_short r2_config video_info io clock g st)) (short_id f) = Some e
       \<and> committed (session (publish_short r2_config video_info io clock g st)) (short_id f) = Some e
       \<and> py ''videos/'' @ f \<notin> set (put_calls (publish_short r2_config video_info io clock g st))"
proof (cases "short_id g = short_id f")
  case True
  with w have "working (session st) (short_id g) = Some e" by simp
  from publish_short_skip [OF this t] w c p show ?thesis by simp
next
  case False
  then have "g \<noteq> f" by auto
  from publish_short_other_calls [OF this p]
    publish_short_other_row [OF False, of st r2_config video_info io clock] w c
  show ?thesis by simp
qed

lemma publish_loop_keeps:
  assumes "working (session st) (short_id f) = Some e"
    and "committed (session st) (short_id f) = Some e"
    and "truthy (v_r2_url e)"
    and "py ''videos/'' @ f \<notin> set (put_calls st)"
  shows "working (session (snd (publish_loop r2_config video_info io clock fs st))) (short_id f) = Some e
       \<and> committed (session (snd (publish_loop r2_config video_info io clock fs st))) (short_id f) = Some e
       \<and> py ''videos/'' @ f \<notin> set (put_calls (snd (publish_loop r2_config video_info io clock fs st)))"
  using assms
proof (induction fs arbitrary: st)
  case Nil
  then show ?case by simp
next
  case (Cons g fs)
  show ?case
  proof (cases "io g = QueryRaises")
    case True
    with Cons.prems show ?thesis by simp
  next
    case False
    let ?s1 = "publish_short r2_config video_info io clock g st"
    from publish_short_keeps [OF Cons.prems, of r2_config video_info io clock g]
    have "working (session ?s1) (short_id f) = Some e"
      "committed (session ?s1) (short_id f) = Some e"
      "py ''videos/'' @ f \<notin> set (put_calls ?s1)" by simp_all
    from Cons.IH [OF this(1,2) Cons.prems(3) this(3)] False show ?thesis by simp
  qed
qed

text \<open>
  C2, as the code has it. In \<open>upload_shorts_to_r2_and_db\<close>, a clip whose row exists with a
  non-empty \<open>r2_url\<close> causes no \<open>put_object\<close> call, and its row is the same at the end of
  the run, in the database and in the session, whatever happens to the other files.
\<close>

theorem published_clip_is_skipped:
  "db (short_id filename) = Some e \<and> truthy (v_r2_url e) \<longrightarrow>
     (let r = upload_shorts_to_r2_and_db video_id shorts_dir video_info r2_config db_connects db
                io clock
      in py ''videos/'' @ filename \<notin> set (put_calls (snd r))
         \<and> committed (session (snd r)) (short_id filename) = Some e
         \<and> working (session (snd r)) (short_id filename) = Some e)"
proof
  assume a: "db (short_id filename) = Some e \<and> truthy (v_r2_url e)"
  let ?init = "\<lparr>session = new_session db, put_calls = [], uploaded = 0\<rparr>"
  have i: "working (session ?init) (short_id filename) = Some e"
    "committed (session ?init) (short_id filename) = Some e"
    "py ''videos/'' @ filename \<notin> set (put_calls ?init)"
    using a by (simp_all add: new_session_def)
  from a have t: "truthy (v_r2_url e)" by simp
  note L = publish_loop_keeps [OF i(1,2) t i(3), of r2_config video_info io clock
      "filter (\<lambda>f. suffix (py ''.mp4'') f) shorts_dir"]
  show "let r = upload_shorts_to_r2_and_db video_id shorts_dir video_info r2_config db_connects db
                io clock
      in py ''videos/'' @ filename \<notin> set (put_calls (snd r))
         \<and> committed (session (snd r)) (short_id filename) = Some e
         \<and> working (session (snd r)) (short_id filename) = Some e"
  proof (cases db_connects)
    case True
    with L show ?thesis by (simp add: upload_shorts_to_r2_and_db_def Let_def)
  next
    case False
    with i show ?thesis by (simp add: upload_shorts_to_r2_and_db_def Let_def)
  qed
qed

lemma name_checks_2:
  "suffix (py ''.mp4'') (py ''vid_1.mp4'')" "suffix (py ''.mp4'') (py ''vid_2.mp4'')"
  by code_simp+

text \<open>
  Two clips, the first published before: only the second is uploaded and recorded.
\<close>

theorem published_clip_is_skipped_witness:
  "truthy (v_r2_url published_row)
   \<and> (let r = upload_shorts_to_r2_and_db (py ''vid'') [py ''vid_1.mp4'', py ''vid_2.mp4'']
                \<lparr>info_title = Some (py ''A title''), info_description = Some [],
                 info_duration = Some 185\<rparr>
                \<lparr>cfg_access_key = py ''k'', cfg_secret_key = py ''s'', cfg_endpoint = py ''e'',
                 cfg_bucket = py ''b'', cfg_public_url = py ''https://cdn''\<rparr>
                True (Map.empty(py ''vid_1'' \<mapsto> published_row)) (\<lambda>f. AllSucceed) (\<lambda>f. 2)
       in fst r = Some True
          \<and> put_calls (snd r) = [py ''videos/vid_2.mp4'']
          \<and> committed (session (snd r)) (py ''vid_1'') = Some published_row
          \<and> map_option v_r2_url (committed (session (snd r)) (py ''vid_2''))
               = Some (Some (py ''https://cdn/videos/vid_2.mp4'')))"
proof -
  let ?r = "upload_shorts_to_r2_and_db (py ''vid'') [py ''vid_1.mp4'', py ''vid_2.mp4'']
                \<lparr>info_title = Some (py ''A title''), info_description = Some [],
                 info_duration = Some 185\<rparr>
                \<lparr>cfg_access_key = py ''k'', cfg_secret_key = py ''s'', cfg_endpoint = py ''e'',
                 cfg_bucket = py ''b'', cfg_public_url = py ''https://cdn''\<rparr>
                True (Map.empty(py ''vid_1'' \<mapsto> published_row)) (\<lambda>f. AllSucceed) (\<lambda>f. 2::nat)"
  have t: "truthy (v_r2_url published_row)" by (simp add: published_row_def truthy_def py_def)
  have d: "(Map.empty(py ''vid_1'' \<mapsto> published_row)) (short_id (py ''vid_1.mp4'')) = Some published_row"
    by (simp add: short_id_example)
  note T = published_clip_is_skipped [where filename = "py ''vid_1.mp4''" and e = published_row
      and db = "Map.empty(py ''vid_1'' \<mapsto> published_row)" and video_id = "py ''vid''"
      and shorts_dir = "[py ''vid_1.mp4'', py ''vid_2.mp4'']"
      and video_info = "\<lparr>info_title = Some (py ''A title''), info_description = Some [],
                 info_duration = Some 185\<rparr>"
      and r2_config = "\<lparr>cfg_access_key = py ''k'', cfg_secret_key = py ''s'', cfg_endpoint = py ''e'',
                 cfg_bucket = py ''b'', cfg_public_url = py ''https://cdn''\<rparr>"
      and db_connects = True and io = "\<lambda>f. AllSucceed" and clock = "\<lambda>f. 2", unfolded Let_def]
  from T d t have k: "committed (session (snd ?r)) (py ''vid_1'') = Some published_row"
    by (simp add: short_id_example)
  have n: "py ''vid_2'' \<noteq> py ''vid_1''" by (simp add: py_def)
  have e: "fst ?r = Some True \<and> put_calls (snd ?r) = [py ''videos/vid_2.mp4'']
           \<and> map_option v_r2_url (committed (session (snd ?r)) (py ''vid_2''))
               = Some (Some (py ''https://cdn/videos/vid_2.mp4''))"
    using t n
    by (simp add: upload_shorts_to_r2_and_db_def Let_def name_checks_2 publish_short_def
        short_id_example short_id_vid_2 new_session_def session_write_def session_commit_def)
       (simp add: py_def)
  from t k e show ?thesis unfolding Let_def by blast
qed

text \<open>
  C2 fails in \<open>upload_shorts_to_r2.py\<close>, which has no such check: the published clip is
  uploaded again and its row rewritten.
\<close>

theorem upload_script_reuploads_counterexample:
  "truthy (v_r2_url published_row)
   \<and> upload_calls (upload_all (py ''vid'') (py ''https://cdn'') (\<lambda>f. Succeeds) (\<lambda>f. 2)
        [py ''vid_1.mp4'']
        \<lparr>u_session = new_session (Map.empty(py ''vid_1'' \<mapsto> published_row)), upload_calls = [],
         success_count = 0, failed_count = 0\<rparr>) = [py ''vid/vid_1.mp4'']
   \<and> committed (u_session (upload_all (py ''vid'') (py ''https://cdn'') (\<lambda>f. Succeeds) (\<lambda>f. 2)
        [py ''vid_1.mp4'']
        \<lparr>u_session = new_session (Map.empty(py ''vid_1'' \<mapsto> published_row)), upload_calls = [],
         success_count = 0, failed_count = 0\<rparr>)) (py ''vid_1'') \<noteq> Some published_row"
proof -
  have t: "truthy (v_r2_url published_row)" by (simp add: published_row_def truthy_def py_def)
  have c: "upload_calls (upload_all (py ''vid'') (py ''https://cdn'') (\<lambda>f. Succeeds) (\<lambda>f. 2)
        [py ''vid_1.mp4'']
        \<lparr>u_session = new_session (Map.empty(py ''vid_1'' \<mapsto> published_row)), upload_calls = [],
         success_count = 0, failed_count = 0\<rparr>) = [py ''vid/vid_1.mp4'']"
    by (simp add: upload_all_calls) (simp add: py_def)
  have "map_option v_updated_at (committed (u_session (upload_all (py ''vid'') (py ''https://cdn'')
        (\<lambda>f. Succeeds) (\<lambda>f. 2) [py ''vid_1.mp4'']
        \<lparr>u_session = new_session (Map.empty(py ''vid_1'' \<mapsto> published_row)), upload_calls = [],
         success_count = 0, failed_count = 0\<rparr>)) (py ''vid_1'')) = Some 2"
    by (simp add: upload_all_def upload_one_def Let_def new_session_def session_write_def
        session_commit_def short_id_example)
  moreover have "map_option v_updated_at (Some published_row) = Some 1"
    by (simp add: published_row_def)
  ultimately have "committed (u_session (upload_all (py ''vid'') (py ''https://cdn'')
        (\<lambda>f. Succeeds) (\<lambda>f. 2) [py ''vid_1.mp4'']
        \<lparr>u_session = new_session (Map.empty(py ''vid_1'' \<mapsto> published_row)), upload_calls = [],
         success_count = 0, failed_count = 0\<rparr>)) (py ''vid_1'') \<noteq> Some published_row"
    by (metis numeral_eq_one_iff option.inject semiring_norm(85))
  with t c show ?thesis by blast
qed

lemma publish_short_rolls_back:
  assumes "io g \<in> {OpenRaises, PutObjectRaises, CommitRaises}"
    and "\<not> (case working (session st) (short_id g) of Some e \<Rightarrow> truthy (v_r2_url e) | None \<Rightarrow> False)"
  shows "working (session (publish_short r2_config video_info io clock g st)) = committed (session st)
       \<and> committed (session (publish_short r2_config video_info io clock g st)) = committed (session st)
       \<and> rollbacks (session (publish_short r2_config video_info io clock g st)) = rollbacks (session st) + 1
       \<and> uploaded (publish_short r2_config video_info io clock g st) = uploaded st"
  using assms
  by (auto simp: publish_short_def Let_def session_write_def session_rollback_def
      split: option.splits)

lemma publish_loop_runs_to_the_end:
  "\<forall>f\<in>set fs. io f \<noteq> QueryRaises \<Longrightarrow> \<not> fst (publish_loop r2_config video_info io clock fs st)"
  by (induction fs arbitrary: st) simp_all

lemma upload_shorts_to_r2_and_db_result:
  "fst (upload_shorts_to_r2_and_db video_id shorts_dir video_info r2_config db_connects db io clock)
     = Some True
   \<longleftrightarrow> db_connects
       \<and> \<not> fst (publish_loop r2_config video_info io clock
                 (filter (\<lambda>f. suffix (py ''.mp4'') f) shorts_dir)
                 \<lparr>session = new_session db, put_calls = [], uploaded = 0\<rparr>)
       \<and> 0 < uploaded (snd (upload_shorts_to_r2_and_db video_id shorts_dir video_info r2_config
                               db_connects db io clock))"
  by (simp add: upload_shorts_to_r2_and_db_def Let_def)

lemma main_exit_code:
  "exit_code (main isalnum w) = 0
     \<longleftrightarrow> (case published (main isalnum w) of Some r \<Rightarrow> fst r = Some True | None \<Rightarrow> False)"
  by (auto simp: main_def Let_def split: option.splits)

lemma main_exit_code_range: "exit_code (main isalnum w) = 0 \<or> exit_code (main isalnum w) = 1"
  by (simp add: main_def Let_def split: option.splits)

lemma upload_shorts_to_r2_exit_code:
  "u_exit_code (upload_shorts_to_r2 w) = 0
     \<longleftrightarrow> (case u_final (upload_shorts_to_r2 w) of Some st \<Rightarrow> 0 < success_count st
          | None \<Rightarrow> False)"
  by (simp add: upload_shorts_to_r2_def Let_def split: option.splits)

end
